theory Spec2Isabelle
  imports Complex_Main "HOL-Library.Sublist"
begin

section \<open>Tensors\<close>

text \<open>
  The Gaussian model of \<^verbatim>\<open>skrl/models/torch/gaussian.py\<close> works on torch tensors.
  A tensor is modelled by its shape and its elements in row-major order, the layout
  of a contiguous torch tensor. Elements are real numbers: rounding, infinities and
  NaN of the float types are outside this model.
\<close>

datatype tensor = Tensor (shape: "nat list") (data: "real list")

definition numel :: "nat list \<Rightarrow> nat" where
  "numel s = prod_list s"

definition wf_tensor :: "tensor \<Rightarrow> bool" where
  "wf_tensor t = (length (data t) = numel (shape t))"

text \<open>Python errors that the modelled code can raise.\<close>

datatype error =
    ValueError string
  | AttributeError
  | IndexError
  | TypeError
  | RuntimeError

subsection \<open>Broadcasting\<close>

text \<open>
  Shapes are aligned at their last dimension; a missing leading dimension counts
  as 1. Two dimensions are compatible when they are equal or one of them is 1.
\<close>

definition pad :: "nat \<Rightarrow> nat list \<Rightarrow> nat list" where
  "pad r s = replicate (r - length s) 1 @ s"

fun bdims :: "nat list \<Rightarrow> nat list \<Rightarrow> nat list option" where
  "bdims [] [] = Some []"
| "bdims (x # xs) (y # ys) =
     (if x = y \<or> y = 1 then map_option ((#) x) (bdims xs ys)
      else if x = 1 then map_option ((#) y) (bdims xs ys)
      else None)"
| "bdims _ _ = None"

text \<open>\<open>fits m n\<close>: a dimension of size \<open>m\<close> can be expanded to size \<open>n\<close>.\<close>

definition fits :: "nat \<Rightarrow> nat \<Rightarrow> bool" where
  "fits m n = (m = n \<or> m = 1)"

definition broadcast_shapes :: "nat list \<Rightarrow> nat list \<Rightarrow> nat list option" where
  "broadcast_shapes a b =
     (let r = max (length a) (length b) in bdims (pad r a) (pad r b))"

text \<open>\<open>chunks m k xs\<close>: the \<open>m\<close> consecutive blocks of \<open>k\<close> elements of \<open>xs\<close>.\<close>

definition chunks :: "nat \<Rightarrow> nat \<Rightarrow> 'a list \<Rightarrow> 'a list list" where
  "chunks m k xs = map (\<lambda>i. take k (drop (i * k) xs)) [0..<m]"

text \<open>
  \<open>expand_data ns ms xs\<close>: the elements of a tensor of shape \<open>ms\<close> (padded to the rank
  of \<open>ns\<close>) expanded to the shape \<open>ns\<close>; a dimension of size 1 is repeated.
\<close>

fun expand_data :: "nat list \<Rightarrow> nat list \<Rightarrow> real list \<Rightarrow> real list" where
  "expand_data (n # ns) (m # ms) xs =
     (if m = n then concat (map (expand_data ns ms) (chunks m (numel ms) xs))
      else concat (replicate n (expand_data ns ms xs)))"
| "expand_data _ _ xs = xs"

definition expand :: "nat list \<Rightarrow> tensor \<Rightarrow> tensor" where
  "expand s t = Tensor s (expand_data s (pad (length s) (shape t)) (data t))"

definition binop :: "(real \<Rightarrow> real \<Rightarrow> real) \<Rightarrow> tensor \<Rightarrow> tensor \<Rightarrow> error + tensor" where
  "binop f a b =
     (case broadcast_shapes (shape a) (shape b) of
        None \<Rightarrow> Inl RuntimeError
      | Some s \<Rightarrow> Inr (Tensor s (map2 f (data (expand s a)) (data (expand s b)))))"

subsection \<open>The torch operations used by the model\<close>

definition torch_exp :: "tensor \<Rightarrow> tensor" where
  "torch_exp t = Tensor (shape t) (map exp (data t))"

text \<open>\<^verbatim>\<open>torch.clamp(t, lo, hi)\<close> with number bounds: \<open>min(max(x, lo), hi)\<close> per element.\<close>

definition clamp_scalar :: "tensor \<Rightarrow> real \<Rightarrow> real \<Rightarrow> tensor" where
  "clamp_scalar t lo hi = Tensor (shape t) (map (\<lambda>x. min (max x lo) hi) (data t))"

definition torch_min :: "tensor \<Rightarrow> tensor \<Rightarrow> error + tensor" where
  "torch_min a b = binop min a b"

definition torch_max :: "tensor \<Rightarrow> tensor \<Rightarrow> error + tensor" where
  "torch_max a b = binop max a b"

text \<open>
  \<^verbatim>\<open>torch.clamp(t, min=lo, max=hi)\<close> with tensor bounds: the three tensors are
  broadcast together and each element is \<open>min(max(x, lo), hi)\<close>.
\<close>

definition clamp_tensor :: "tensor \<Rightarrow> tensor \<Rightarrow> tensor \<Rightarrow> error + tensor" where
  "clamp_tensor t lo hi =
     (case torch_max t lo of Inl e \<Rightarrow> Inl e | Inr u \<Rightarrow> torch_min u hi)"

text \<open>
  Reductions along the last dimension (\<^verbatim>\<open>dim=-1\<close>). On a tensor of rank 0 they
  return its only element. The mean of an empty dimension is NaN in torch; the
  model has no NaN and gives 0 there.
\<close>

definition reduce_last :: "(real list \<Rightarrow> real) \<Rightarrow> tensor \<Rightarrow> tensor" where
  "reduce_last f t =
     (case shape t of
        [] \<Rightarrow> t
      | _ # _ \<Rightarrow>
          (let s = butlast (shape t); d = last (shape t)
           in Tensor s (map f (chunks (numel s) d (data t)))))"

definition torch_sum :: "tensor \<Rightarrow> tensor" where
  "torch_sum t = reduce_last sum_list t"

definition torch_mean :: "tensor \<Rightarrow> tensor" where
  "torch_mean t = reduce_last (\<lambda>xs. sum_list xs / real (length xs)) t"

definition torch_prod :: "tensor \<Rightarrow> tensor" where
  "torch_prod t = reduce_last prod_list t"

definition dim :: "tensor \<Rightarrow> nat" where
  "dim t = length (shape t)"

text \<open>\<^verbatim>\<open>t.unsqueeze(-1)\<close>\<close>

definition unsqueeze_last :: "tensor \<Rightarrow> tensor" where
  "unsqueeze_last t = Tensor (shape t @ [1]) (data t)"

text \<open>
  \<^verbatim>\<open>t.repeat(n, 1)\<close>: a tensor of rank below 2 gets leading dimensions of size 1,
  then the whole tensor is repeated \<open>n\<close> times along the first dimension. A tensor
  of rank above 2 is refused.
\<close>

definition repeat_rows :: "tensor \<Rightarrow> nat \<Rightarrow> error + tensor" where
  "repeat_rows t n =
     (if 2 < length (shape t) then Inl RuntimeError
      else (case pad 2 (shape t) of
              a # rest \<Rightarrow> Inr (Tensor ((n * a) # rest) (concat (replicate n (data t))))
            | [] \<Rightarrow> Inl RuntimeError))"

subsection \<open>\<^verbatim>\<open>torch.distributions.Normal\<close>\<close>

record normal =
  loc :: tensor
  scale :: tensor

text \<open>
  The constructor broadcasts location and scale to a common shape. Its argument
  check rejects only a scale that is not positive, which the exponential of a real
  number never is.
\<close>

definition Normal :: "tensor \<Rightarrow> tensor \<Rightarrow> error + normal" where
  "Normal l s =
     (case broadcast_shapes (shape l) (shape s) of
        None \<Rightarrow> Inl RuntimeError
      | Some b \<Rightarrow> Inr \<lparr>loc = expand b l, scale = expand b s\<rparr>)"

text \<open>
  \<^verbatim>\<open>rsample\<close>: \<open>loc + eps * scale\<close>, where \<open>eps\<close> holds one standard normal draw per
  element. The draws are a parameter: \<open>noise i\<close> is the draw for element \<open>i\<close>.
\<close>

definition rsample :: "(nat \<Rightarrow> real) \<Rightarrow> normal \<Rightarrow> tensor" where
  "rsample noise d =
     Tensor (shape (loc d))
       (map (\<lambda>(l, e, s). l + e * s)
          (zip (data (loc d))
             (zip (map noise [0..<numel (shape (loc d))]) (data (scale d)))))"

definition log_density :: "real \<Rightarrow> real \<Rightarrow> real \<Rightarrow> real" where
  "log_density x l s = - ((x - l)\<^sup>2) / (2 * s\<^sup>2) - ln s - ln (sqrt (2 * pi))"

definition log_prob :: "normal \<Rightarrow> tensor \<Rightarrow> error + tensor" where
  "log_prob d v =
     (case broadcast_shapes (shape v) (shape (loc d)) of
        None \<Rightarrow> Inl (ValueError ''Value is not broadcastable with batch_shape+event_shape'')
      | Some b \<Rightarrow>
          Inr (Tensor b
            (map (\<lambda>(x, l, s). log_density x l s)
               (zip (data (expand b v))
                  (zip (data (expand b (loc d))) (data (expand b (scale d))))))))"

definition entropy :: "normal \<Rightarrow> tensor" where
  "entropy d =
     Tensor (shape (scale d)) (map (\<lambda>s. 1 / 2 + 1 / 2 * ln (2 * pi) + ln s) (data (scale d)))"

section \<open>The Gaussian model\<close>

text \<open>
  The action space description handed to the constructor: a plain size, a sequence
  of sizes, or a \<^verbatim>\<open>gym.Space\<close>. Of the gym spaces only \<^verbatim>\<open>Box\<close> has the attributes
  \<^verbatim>\<open>low\<close> and \<^verbatim>\<open>high\<close>; \<open>Discrete\<close> stands for the gym spaces without them.
\<close>

datatype space =
    Size int
  | Dims "int list"
  | Box (low: tensor) (high: tensor)
  | Discrete nat

fun is_gym_space :: "space \<Rightarrow> bool" where
  "is_gym_space (Box _ _) = True"
| "is_gym_space (Discrete _) = True"
| "is_gym_space _ = False"

datatype reduction = Mean | Sum | Prod

fun apply_reduction :: "reduction \<Rightarrow> tensor \<Rightarrow> tensor" where
  "apply_reduction Mean t = torch_mean t"
| "apply_reduction Sum t = torch_sum t"
| "apply_reduction Prod t = torch_prod t"

text \<open>
  The fields of a \<^verbatim>\<open>GaussianModel\<close>. A field written \<^verbatim>\<open>_name\<close> in the source is
  \<open>priv_name\<close> here. The base class \<^verbatim>\<open>Model\<close> is not part of the sources at hand;
  of its fields only \<open>action_space\<close> is read by this class, and it is taken to
  hold the constructor's argument. The bounds and the compatibility flag exist only
  when clipping is on, so they are optional.
\<close>

record gaussian_model =
  action_space :: space
  clip_actions :: bool
  clip_actions_min :: "tensor option"
  clip_actions_max :: "tensor option"
  priv_backward_compatibility :: "bool option"
  clip_log_std :: bool
  log_std_min :: real
  log_std_max :: real
  priv_log_std :: "tensor option"
  priv_num_samples :: "nat option"
  priv_distribution :: "normal option"
  priv_reduction :: "reduction option"

definition quoted :: "string \<Rightarrow> string" where
  "quoted s = CHR 0x27 # s @ [CHR 0x27]"

text \<open>The text of the \<^verbatim>\<open>ValueError\<close> of the constructor.\<close>

definition reduction_message :: string where
  "reduction_message =
     ''reduction must be one of '' @ quoted ''mean'' @ '', '' @ quoted ''sum'' @ '', ''
       @ quoted ''prod'' @ '' or '' @ quoted ''none''"

text \<open>
  The function stored in \<^verbatim>\<open>_reduction\<close>: \<^verbatim>\<open>torch.mean\<close>, \<^verbatim>\<open>torch.sum\<close>,
  \<^verbatim>\<open>torch.prod\<close> or \<^verbatim>\<open>None\<close>.
\<close>

definition select_reduction :: "string \<Rightarrow> reduction option" where
  "select_reduction reduction =
     (if reduction = ''mean'' then Some Mean
      else if reduction = ''sum'' then Some Sum
      else if reduction = ''prod'' then Some Prod
      else None)"

text \<open>
  \<^verbatim>\<open>__init__\<close>. \<open>torch_version\<close> is the major and minor number of
  \<^verbatim>\<open>torch.__version__\<close>. The observation space and the device do not influence
  any value computed here and are left out.
\<close>

definition init ::
  "space \<Rightarrow> nat \<times> nat \<Rightarrow> bool \<Rightarrow> bool \<Rightarrow> real \<Rightarrow> real \<Rightarrow> string \<Rightarrow> error + gaussian_model" where
  "init space torch_version clip_requested clip_std min_log_std max_log_std reduction =
     (let clip_resolved = (clip_requested \<and> is_gym_space space) in
      case (if clip_resolved then
              (case space of
                 Box lo hi \<Rightarrow>
                   Inr (Some lo, Some hi,
                        Some (fst torch_version < 1
                              \<or> (fst torch_version = 1 \<and> snd torch_version < 9)))
               | _ \<Rightarrow> Inl AttributeError)
            else Inr (None, None, None)) of
        Inl e \<Rightarrow> Inl e
      | Inr (cmin, cmax, old_torch) \<Rightarrow>
          if reduction \<notin> set [''mean'', ''sum'', ''prod'', ''none'']
          then Inl (ValueError reduction_message)
          else Inr \<lparr>action_space = space,
                    clip_actions = clip_resolved,
                    clip_actions_min = cmin,
                    clip_actions_max = cmax,
                    priv_backward_compatibility = old_torch,
                    clip_log_std = clip_std,
                    log_std_min = min_log_std,
                    log_std_max = max_log_std,
                    priv_log_std = None,
                    priv_num_samples = None,
                    priv_distribution = None,
                    priv_reduction = select_reduction reduction\<rparr>)"

text \<open>
  The mean and log standard deviation come from outside: from the method
  \<^verbatim>\<open>compute\<close> of the subclass, or from \<^verbatim>\<open>_get_instantiator_output\<close> when the base
  class holds an instantiator network. Either may raise.
\<close>

type_synonym provided = "error + tensor \<times> tensor"

record provider =
  compute :: "tensor \<Rightarrow> tensor option \<Rightarrow> string \<Rightarrow> provided"
  priv_instantiator_net :: "(tensor \<Rightarrow> tensor option \<Rightarrow> provided) option"

definition provide :: "provider \<Rightarrow> tensor \<Rightarrow> tensor option \<Rightarrow> string \<Rightarrow> provided" where
  "provide p states taken_actions role =
     (case priv_instantiator_net p of
        None \<Rightarrow> compute p states taken_actions role
      | Some get_instantiator_output \<Rightarrow> get_instantiator_output states taken_actions)"

text \<open>The block \<^verbatim>\<open># clamp log standard deviations\<close> of \<^verbatim>\<open>act\<close>.\<close>

definition clamp_log_std :: "gaussian_model \<Rightarrow> tensor \<Rightarrow> tensor" where
  "clamp_log_std m log_std =
     (if clip_log_std m
      then clamp_scalar log_std (log_std_min m) (log_std_max m)
      else log_std)"

text \<open>The block \<^verbatim>\<open># clip actions\<close> of \<^verbatim>\<open>act\<close>.\<close>

definition clip :: "gaussian_model \<Rightarrow> tensor \<Rightarrow> error + tensor" where
  "clip m actions =
     (if clip_actions m then
        (case priv_backward_compatibility m of
           None \<Rightarrow> Inl AttributeError
         | Some old_torch \<Rightarrow>
             (case (clip_actions_min m, clip_actions_max m) of
                (Some lo, Some hi) \<Rightarrow>
                  if old_torch then
                    (case torch_min actions hi of
                       Inl e \<Rightarrow> Inl e
                     | Inr u \<Rightarrow> torch_max u lo)
                  else clamp_tensor actions lo hi
              | _ \<Rightarrow> Inl AttributeError))
      else Inr actions)"

text \<open>The reduction of the log probability and the trailing dimension.\<close>

definition reduce :: "gaussian_model \<Rightarrow> tensor \<Rightarrow> tensor \<Rightarrow> tensor" where
  "reduce m actions lp =
     (let lp' = (case priv_reduction m of None \<Rightarrow> lp | Some r \<Rightarrow> apply_reduction r lp)
      in if dim lp' \<noteq> dim actions then unsqueeze_last lp' else lp')"

text \<open>\<^verbatim>\<open>detach\<close> cuts the gradient graph and leaves the values as they are.\<close>

definition detach :: "tensor \<Rightarrow> tensor" where
  "detach t = t"

text \<open>
  \<^verbatim>\<open>act\<close> returns the state of the model after the call together with the outcome:
  the exception raised, or the actions, their log probability and the mean
  actions. Moving a tensor to the device leaves its value.
\<close>

definition act ::
  "provider \<Rightarrow> (nat \<Rightarrow> real) \<Rightarrow> gaussian_model \<Rightarrow> tensor \<Rightarrow> tensor option \<Rightarrow> bool \<Rightarrow> string
     \<Rightarrow> gaussian_model \<times> (error + tensor \<times> tensor \<times> tensor)" where
  "act p noise m states taken_actions inference role =
     (case provide p states taken_actions role of
        Inl e \<Rightarrow> (m, Inl e)
      | Inr (actions_mean, log_std0) \<Rightarrow>
          (let log_std = clamp_log_std m log_std0;
               m1 = m\<lparr>priv_log_std := Some log_std\<rparr>
           in case shape actions_mean of
                [] \<Rightarrow> (m1, Inl IndexError)
              | n # _ \<Rightarrow>
                  (let m2 = m1\<lparr>priv_num_samples := Some n\<rparr>
                   in case Normal actions_mean (torch_exp log_std) of
                        Inl e \<Rightarrow> (m2, Inl e)
                      | Inr d \<Rightarrow>
                          (let m3 = m2\<lparr>priv_distribution := Some d\<rparr>
                           in case clip m3 (rsample noise d) of
                                Inl e \<Rightarrow> (m3, Inl e)
                              | Inr actions \<Rightarrow>
                                  (case log_prob d
                                          (case taken_actions of
                                             None \<Rightarrow> actions
                                           | Some t \<Rightarrow> t) of
                                     Inl e \<Rightarrow> (m3, Inl e)
                                   | Inr lp \<Rightarrow>
                                       (let lp' = reduce m3 actions lp
                                        in if inference
                                           then (m3, Inr (detach actions, detach lp',
                                                          detach actions_mean))
                                           else (m3, Inr (actions, lp', actions_mean))))))))"

definition get_entropy :: "gaussian_model \<Rightarrow> tensor" where
  "get_entropy m =
     (case priv_distribution m of
        None \<Rightarrow> Tensor [] [0]
      | Some d \<Rightarrow> entropy d)"

definition get_log_std :: "gaussian_model \<Rightarrow> error + tensor" where
  "get_log_std m =
     (case priv_log_std m of
        None \<Rightarrow> Inl AttributeError
      | Some ls \<Rightarrow>
          (case priv_num_samples m of
             None \<Rightarrow> Inl TypeError
           | Some n \<Rightarrow> repeat_rows ls n))"

definition distribution :: "gaussian_model \<Rightarrow> normal option" where
  "distribution m = priv_distribution m"

section \<open>Conditions and example inputs used in the statements\<close>

text \<open>A space whose description carries bounds: of the spaces above, only a box.\<close>

definition has_bounds :: "space \<Rightarrow> bool" where
  "has_bounds space = (case space of Box _ _ \<Rightarrow> True | _ \<Rightarrow> False)"

text \<open>The values of \<open>reduction\<close> that the constructor accepts.\<close>

definition accepted :: "string list" where
  "accepted = [''mean'', ''sum'', ''prod'', ''none'']"

text \<open>
  \<open>fits_into t s\<close>: the tensor \<open>t\<close> holds as many elements as its shape says, and
  broadcasting it against the shape \<open>s\<close> gives \<open>s\<close> again.
\<close>

definition fits_into :: "tensor \<Rightarrow> nat list \<Rightarrow> bool" where
  "fits_into t s = (wf_tensor t \<and> broadcast_shapes s (shape t) = Some s)"

text \<open>
  \<open>bounds_fit m s\<close>: when the model clips actions, its bounds and its
  compatibility flag are present and both bounds fit into the shape \<open>s\<close>.
\<close>

definition bounds_fit :: "gaussian_model \<Rightarrow> nat list \<Rightarrow> bool" where
  "bounds_fit m s =
     (if clip_actions m then
        (case (clip_actions_min m, clip_actions_max m, priv_backward_compatibility m) of
           (Some lo, Some hi, Some _) \<Rightarrow> fits_into lo s \<and> fits_into hi s
         | _ \<Rightarrow> False)
      else True)"

text \<open>
  \<open>densities v mean log_std\<close>: the normal log density of each element of \<open>v\<close>, for
  the mean and the log standard deviation of its place.
\<close>

definition densities :: "tensor \<Rightarrow> tensor \<Rightarrow> tensor \<Rightarrow> real list" where
  "densities v mean log_std =
     map (\<lambda>(x, l, s). log_density x l (exp s))
       (zip (data v) (zip (data mean) (data log_std)))"

text \<open>
  \<open>reduced r n k xs\<close>: the \<open>n\<close> rows of \<open>k\<close> elements of \<open>xs\<close>, each replaced by its
  sum, mean or product, or \<open>xs\<close> itself when there is no reduction.
\<close>

definition reduced :: "reduction option \<Rightarrow> nat \<Rightarrow> nat \<Rightarrow> real list \<Rightarrow> real list" where
  "reduced r n k xs =
     (case r of
        None \<Rightarrow> xs
      | Some Sum \<Rightarrow> map sum_list (chunks n k xs)
      | Some Mean \<Rightarrow> map (\<lambda>c. sum_list c / real k) (chunks n k xs)
      | Some Prod \<Rightarrow> map prod_list (chunks n k xs))"

text \<open>A provider that returns the same mean and log standard deviation on every call.\<close>

definition stub_provider :: "tensor \<Rightarrow> tensor \<Rightarrow> provider" where
  "stub_provider mean log_std =
     \<lparr>compute = (\<lambda>states taken_actions role. Inr (mean, log_std)),
      priv_instantiator_net = None\<rparr>"

text \<open>A provider whose mean is the taken actions, when there are any.\<close>

definition echo_provider :: "tensor \<Rightarrow> tensor \<Rightarrow> provider" where
  "echo_provider mean log_std =
     \<lparr>compute = (\<lambda>states taken_actions role.
                   Inr (case taken_actions of None \<Rightarrow> mean | Some t \<Rightarrow> t, log_std)),
      priv_instantiator_net = None\<rparr>"

text \<open>A noise source that draws the same number for every element.\<close>

definition const_noise :: "real \<Rightarrow> nat \<Rightarrow> real" where
  "const_noise c i = c"

text \<open>
  Two models as the constructor leaves them, with the defaults for the log standard
  deviation and the reduction \<^verbatim>\<open>"sum"\<close>: one on an action space given by its size,
  one on the box \<open>[-1, 1]\<close> of dimension 1 with clipping of the actions.
\<close>

definition plain_model :: gaussian_model where
  "plain_model =
     \<lparr>action_space = Size 1, clip_actions = False, clip_actions_min = None,
      clip_actions_max = None, priv_backward_compatibility = None, clip_log_std = True,
      log_std_min = - 20, log_std_max = 2, priv_log_std = None, priv_num_samples = None,
      priv_distribution = None, priv_reduction = Some Sum\<rparr>"

definition box_model :: gaussian_model where
  "box_model =
     \<lparr>action_space = Box (Tensor [1] [- 1]) (Tensor [1] [1]), clip_actions = True,
      clip_actions_min = Some (Tensor [1] [- 1]), clip_actions_max = Some (Tensor [1] [1]),
      priv_backward_compatibility = Some False, clip_log_std = True,
      log_std_min = - 20, log_std_max = 2, priv_log_std = None, priv_num_samples = None,
      priv_distribution = None, priv_reduction = Some Sum\<rparr>"

definition example_states :: tensor where
  "example_states = Tensor [1, 4] [0, 0, 0, 0]"

section \<open>Auxiliary facts\<close>

lemma length_chunks: "length (chunks m k xs) = m"
  by (simp add: chunks_def)

lemma chunk_length:
  assumes "length xs = m * k" and "c \<in> set (chunks m k xs)"
  shows "length c = k"
proof -
  from assms(2) obtain i where i: "i < m" and c: "c = take k (drop (i * k) xs)"
    by (auto simp: chunks_def)
  from i have "Suc i * k \<le> m * k"
    by (intro mult_le_mono1) simp
  then have "k \<le> m * k - i * k" by simp
  with assms(1) c show ?thesis by simp
qed

lemma concat_chunks: "concat (chunks m k xs) = take (m * k) xs"
proof (induction m)
  case 0
  show ?case by (simp add: chunks_def)
next
  case (Suc m)
  have "concat (chunks (Suc m) k xs) = concat (chunks m k xs) @ take k (drop (m * k) xs)"
    by (simp add: chunks_def)
  also have "\<dots> = take (m * k + k) xs"
    by (simp add: Suc.IH take_add)
  finally show ?case by (simp add: add.commute)
qed

lemma bdims_fits:
  "bdims a b = Some s \<Longrightarrow> list_all2 fits a s \<and> list_all2 fits b s"
  by (induction a b arbitrary: s rule: bdims.induct) (auto simp: fits_def split: if_splits)

lemma length_expand_data:
  "list_all2 fits ms ns \<Longrightarrow> length xs = numel ms \<Longrightarrow> length (expand_data ns ms xs) = numel ns"
proof (induction ms ns arbitrary: xs rule: list_all2_induct)
  case Nil
  then show ?case by simp
next
  case (Cons m ms n ns)
  show ?case
  proof (cases "m = n")
    case True
    have len: "length xs = m * numel ms" using Cons.prems by (simp add: numel_def)
    have "\<And>c. c \<in> set (chunks m (numel ms) xs) \<Longrightarrow> length (expand_data ns ms c) = numel ns"
      using Cons.IH chunk_length [OF len] by blast
    then have "map length (map (expand_data ns ms) (chunks m (numel ms) xs))
                 = replicate m (numel ns)"
      by (simp add: map_replicate_const length_chunks cong: map_cong)
    then show ?thesis using True
      by (simp add: length_concat o_def sum_list_replicate numel_def)
  next
    case False
    with Cons.hyps have "m = 1" by (simp add: fits_def)
    with Cons.prems have "length xs = numel ms" by (simp add: numel_def)
    then have "length (expand_data ns ms xs) = numel ns" by (rule Cons.IH)
    with False show ?thesis
      by (simp add: length_concat sum_list_replicate numel_def)
  qed
qed

lemma numel_pad: "numel (pad r s) = numel s"
  by (simp add: pad_def numel_def)

lemma expand_data_same:
  "length xs = numel s \<Longrightarrow> expand_data s s xs = xs"
proof (induction s arbitrary: xs)
  case Nil
  show ?case by simp
next
  case (Cons n ns)
  have len: "length xs = n * numel ns" using Cons.prems by (simp add: numel_def)
  have "map (expand_data ns ns) (chunks n (numel ns) xs) = chunks n (numel ns) xs"
    using Cons.IH chunk_length [OF len] by (simp add: map_idI)
  then show ?case using len by (simp add: concat_chunks)
qed


lemma length_pad: "length s \<le> r \<Longrightarrow> length (pad r s) = r"
  by (simp add: pad_def)

lemma broadcast_fits:
  assumes "broadcast_shapes a b = Some s"
  shows "list_all2 fits (pad (length s) a) s" and "list_all2 fits (pad (length s) b) s"
proof -
  let ?r = "max (length a) (length b)"
  from assms have b: "bdims (pad ?r a) (pad ?r b) = Some s"
    by (simp add: broadcast_shapes_def Let_def)
  from bdims_fits [OF b] have f: "list_all2 fits (pad ?r a) s" "list_all2 fits (pad ?r b) s"
    by simp_all
  from f(1) have "length s = ?r"
    by (simp add: list_all2_lengthD [symmetric] length_pad)
  with f show "list_all2 fits (pad (length s) a) s" "list_all2 fits (pad (length s) b) s"
    by simp_all
qed

lemma shape_expand: "shape (expand s t) = s"
  by (simp add: expand_def)

lemma length_expand_left:
  "broadcast_shapes (shape t) b = Some s \<Longrightarrow> wf_tensor t \<Longrightarrow> length (data (expand s t)) = numel s"
  by (simp add: expand_def wf_tensor_def length_expand_data broadcast_fits(1) numel_pad)

lemma length_expand_right:
  "broadcast_shapes a (shape t) = Some s \<Longrightarrow> wf_tensor t \<Longrightarrow> length (data (expand s t)) = numel s"
  by (simp add: expand_def wf_tensor_def length_expand_data broadcast_fits(2) numel_pad)

lemma broadcast_same: "broadcast_shapes s s = Some s"
proof -
  have "bdims s s = Some s" by (induction s) simp_all
  then show ?thesis by (simp add: broadcast_shapes_def pad_def)
qed

lemma expand_same: "wf_tensor t \<Longrightarrow> expand (shape t) t = t"
  by (cases t) (simp add: expand_def pad_def wf_tensor_def expand_data_same)

lemma binop_shape: "binop f a b = Inr t \<Longrightarrow> broadcast_shapes (shape a) (shape b) = Some (shape t)"
  by (auto simp: binop_def split: option.splits)

lemma binop_wf:
  "binop f a b = Inr t \<Longrightarrow> wf_tensor a \<Longrightarrow> wf_tensor b \<Longrightarrow> wf_tensor t"
  by (auto simp: binop_def wf_tensor_def length_expand_left length_expand_right split: option.splits)

lemma act_Inr:
  "act p noise m states taken inference role = (m', Inr (a, lp, mu)) \<longleftrightarrow>
     (\<exists>ls0 n rest d lp0.
        provide p states taken role = Inr (mu, ls0) \<and>
        shape mu = n # rest \<and>
        Normal mu (torch_exp (clamp_log_std m ls0)) = Inr d \<and>
        m' = m\<lparr>priv_log_std := Some (clamp_log_std m ls0), priv_num_samples := Some n,
                priv_distribution := Some d\<rparr> \<and>
        clip m' (rsample noise d) = Inr a \<and>
        log_prob d (case taken of None \<Rightarrow> a | Some t \<Rightarrow> t) = Inr lp0 \<and>
        lp = reduce m' a lp0)"
  by (auto simp: act_def Let_def detach_def split: sum.splits list.splits prod.splits)


lemma init_plain: "init (Size 1) (1, 10) False True (- 20) 2 ''sum'' = Inr plain_model"
  by (simp add: init_def plain_model_def select_reduction_def)

lemma init_box:
  "init (Box (Tensor [1] [- 1]) (Tensor [1] [1])) (1, 10) True True (- 20) 2 ''sum'' = Inr box_model"
  by (simp add: init_def box_model_def select_reduction_def)




lemmas eval_defs =
  act_def provide_def stub_provider_def echo_provider_def const_noise_def
  plain_model_def box_model_def example_states_def clamp_log_std_def clamp_scalar_def
  Normal_def broadcast_shapes_def pad_def expand_def torch_exp_def chunks_def numel_def
  rsample_def clip_def clamp_tensor_def torch_max_def torch_min_def binop_def log_prob_def
  reduce_def torch_sum_def torch_mean_def torch_prod_def reduce_last_def dim_def
  unsqueeze_last_def detach_def Let_def log_density_def

lemma snd_act_Inr:
  "snd (act p noise m states taken inference role) = Inr r \<Longrightarrow>
   act p noise m states taken inference role = (fst (act p noise m states taken inference role), Inr r)"
  by (metis prod.collapse)

lemma message_lists_accepted: "\<forall>r\<in>set accepted. sublist (quoted r) reduction_message"
  unfolding reduction_message_def quoted_def accepted_def
  by (simp add: sublist_Cons_right prefix_def)

lemma bounds_step:
  "clip_requested \<and> is_gym_space space \<longrightarrow> has_bounds space \<Longrightarrow>
   \<exists>cmin cmax old.
     (if clip_requested \<and> is_gym_space space then
        (case space of
           Box lo hi \<Rightarrow> Inr (Some lo, Some hi, Some (fst v < 1 \<or> (fst v = 1 \<and> snd v < 9)))
         | _ \<Rightarrow> Inl AttributeError)
      else Inr (None, None, None)) = Inr (cmin, cmax, old)"
  by (cases space) (auto simp: has_bounds_def)

lemma init_fields:
  assumes "init space torch_version clip_requested clip_std min_log_std max_log_std reduction
             = Inr m"
  shows "clip_actions m = (clip_requested \<and> is_gym_space space)"
    and "clip_actions m \<Longrightarrow> \<exists>lo hi. space = Box lo hi \<and> clip_actions_min m = Some lo
           \<and> clip_actions_max m = Some hi
           \<and> priv_backward_compatibility m
               = Some (fst torch_version < 1 \<or> (fst torch_version = 1 \<and> snd torch_version < 9))"
    and "clip_log_std m = clip_std" and "log_std_min m = min_log_std"
    and "log_std_max m = max_log_std" and "priv_reduction m = select_reduction reduction"
    and "priv_log_std m = None" and "priv_num_samples m = None" and "priv_distribution m = None"
    and "reduction \<in> set accepted"
  using assms
  by (cases space;
      auto simp: init_def Let_def accepted_def split: if_splits sum.splits prod.splits)+

lemma clip_off: "\<not> clip_actions m \<Longrightarrow> clip m x = Inr x"
  by (simp add: clip_def)

lemma clip_transient [simp]:
  "clip (m\<lparr>priv_log_std := x, priv_num_samples := y, priv_distribution := z\<rparr>) = clip m"
  by (rule ext) (simp add: clip_def split: option.splits)

lemma reduce_transient [simp]:
  "reduce (m\<lparr>priv_log_std := x, priv_num_samples := y, priv_distribution := z\<rparr>) = reduce m"
  by (rule ext)+ (simp add: reduce_def)

lemma act_success:
  assumes "snd (act p noise m states taken inference role) = Inr (a, lp, mu)"
  obtains ls0 n rest d lp0 where
    "provide p states taken role = Inr (mu, ls0)"
    "shape mu = n # rest"
    "Normal mu (torch_exp (clamp_log_std m ls0)) = Inr d"
    "fst (act p noise m states taken inference role)
       = m\<lparr>priv_log_std := Some (clamp_log_std m ls0), priv_num_samples := Some n,
            priv_distribution := Some d\<rparr>"
    "clip m (rsample noise d) = Inr a"
    "log_prob d (case taken of None \<Rightarrow> a | Some t \<Rightarrow> t) = Inr lp0"
    "lp = reduce m a lp0"
proof -
  from snd_act_Inr [OF assms] obtain ls0 n rest d lp0 where
    "provide p states taken role = Inr (mu, ls0)"
    "shape mu = n # rest"
    "Normal mu (torch_exp (clamp_log_std m ls0)) = Inr d"
    "fst (act p noise m states taken inference role)
       = m\<lparr>priv_log_std := Some (clamp_log_std m ls0), priv_num_samples := Some n,
            priv_distribution := Some d\<rparr>"
    "clip (fst (act p noise m states taken inference role)) (rsample noise d) = Inr a"
    "log_prob d (case taken of None \<Rightarrow> a | Some t \<Rightarrow> t) = Inr lp0"
    "lp = reduce (fst (act p noise m states taken inference role)) a lp0"
    unfolding act_Inr by blast
  then show ?thesis using that by simp
qed

lemma bdims_commute: "bdims a b = bdims b a"
  by (induction a b rule: bdims.induct) auto

lemma broadcast_commute: "broadcast_shapes a b = broadcast_shapes b a"
  by (simp add: broadcast_shapes_def Let_def bdims_commute max.commute)

lemma fits_into_same: "wf_tensor t \<Longrightarrow> fits_into t (shape t)"
  by (simp add: fits_into_def broadcast_same)

lemma wf_expand:
  assumes "fits_into t s"
  shows "wf_tensor (expand s t)"
proof -
  from assms have "wf_tensor t" and "broadcast_shapes s (shape t) = Some s"
    by (simp_all add: fits_into_def)
  from length_expand_right [OF this(2,1)] show ?thesis
    by (simp add: wf_tensor_def shape_expand)
qed

lemma Normal_fits:
  assumes "wf_tensor l" and "fits_into s (shape l)"
  shows "\<exists>d. Normal l s = Inr d \<and> loc d = l \<and> scale d = expand (shape l) s"
  using assms by (simp add: Normal_def fits_into_def expand_same)

lemma wf_rsample:
  assumes "wf_tensor (loc d)" and "wf_tensor (scale d)" and "shape (scale d) = shape (loc d)"
  shows "shape (rsample noise d) = shape (loc d)" and "wf_tensor (rsample noise d)"
  using assms by (simp_all add: rsample_def wf_tensor_def)

lemma binop_fits:
  assumes "wf_tensor x" and "fits_into y (shape x)"
  shows "\<exists>t. binop f x y = Inr t \<and> shape t = shape x \<and> wf_tensor t
           \<and> data t = map2 f (data x) (data (expand (shape x) y))"
proof -
  from assms(2) have b: "broadcast_shapes (shape x) (shape y) = Some (shape x)"
    by (simp add: fits_into_def)
  from wf_expand [OF assms(2)] have "length (data (expand (shape x) y)) = numel (shape x)"
    by (simp add: wf_tensor_def shape_expand)
  with assms(1) b show ?thesis
    by (simp add: binop_def expand_same wf_tensor_def)
qed

lemma clip_fits:
  assumes "wf_tensor x" and "bounds_fit m (shape x)"
  shows "\<exists>a. clip m x = Inr a \<and> shape a = shape x \<and> wf_tensor a"
proof (cases "clip_actions m")
  case False
  with assms(1) show ?thesis by (simp add: clip_def)
next
  case True
  with assms(2) obtain lo hi old where
    f: "clip_actions_min m = Some lo" "clip_actions_max m = Some hi"
       "priv_backward_compatibility m = Some old"
       "fits_into lo (shape x)" "fits_into hi (shape x)"
    by (auto simp: bounds_fit_def split: option.splits)
  show ?thesis
  proof (cases old)
    case True
    from binop_fits [OF assms(1) f(5), of min] obtain u where
      u: "torch_min x hi = Inr u" "shape u = shape x" "wf_tensor u"
      by (auto simp: torch_min_def)
    from binop_fits [OF u(3), of lo max] f(4) u(2) obtain a where
      "torch_max u lo = Inr a" "shape a = shape x" "wf_tensor a"
      by (auto simp: torch_max_def)
    with u f True \<open>clip_actions m\<close> show ?thesis by (simp add: clip_def)
  next
    case False
    from binop_fits [OF assms(1) f(4), of max] obtain u where
      u: "torch_max x lo = Inr u" "shape u = shape x" "wf_tensor u"
      by (auto simp: torch_max_def)
    from binop_fits [OF u(3), of hi min] f(5) u(2) obtain a where
      "torch_min u hi = Inr a" "shape a = shape x" "wf_tensor a"
      by (auto simp: torch_min_def)
    with u f False \<open>clip_actions m\<close> show ?thesis by (simp add: clip_def clamp_tensor_def)
  qed
qed

lemma log_prob_fits:
  assumes "wf_tensor (loc d)" and "wf_tensor (scale d)" and "shape (scale d) = shape (loc d)"
    and "fits_into v (shape (loc d))"
  shows "\<exists>lp. log_prob d v = Inr lp \<and> shape lp = shape (loc d) \<and> wf_tensor lp"
proof -
  let ?s = "shape (loc d)"
  from assms(4) have b: "broadcast_shapes (shape v) ?s = Some ?s"
    by (simp add: fits_into_def broadcast_commute)
  from wf_expand [OF assms(4)] have "length (data (expand ?s v)) = numel ?s"
    by (simp add: wf_tensor_def shape_expand)
  moreover from assms(1) have "expand ?s (loc d) = loc d" by (rule expand_same)
  moreover from assms(2,3) have "expand ?s (scale d) = scale d" by (metis expand_same)
  ultimately show ?thesis using b assms(1,2,3)
    by (simp add: log_prob_def wf_tensor_def)
qed

lemma shape_reduce_last: "shape t = [n, k] \<Longrightarrow> reduce_last f t = Tensor [n] (map f (chunks n k (data t)))"
  by (simp add: reduce_last_def numel_def)

lemma reduce_shape:
  assumes "shape a = [n, k]" and "shape lp = [n, k]" and "wf_tensor lp"
  shows "shape (reduce m a lp) = (if priv_reduction m = None then [n, k] else [n, 1])"
    and "wf_tensor (reduce m a lp)"
proof -
  have r: "shape (apply_reduction r lp) = [n] \<and> length (data (apply_reduction r lp)) = n" for r
    by (cases r)
       (simp_all add: torch_mean_def torch_sum_def torch_prod_def shape_reduce_last [OF assms(2)]
          length_chunks)
  show "shape (reduce m a lp) = (if priv_reduction m = None then [n, k] else [n, 1])"
    using assms r
    by (cases "priv_reduction m") (auto simp: reduce_def dim_def unsqueeze_last_def Let_def)
  show "wf_tensor (reduce m a lp)"
    using assms r
    by (cases "priv_reduction m")
       (auto simp: reduce_def dim_def unsqueeze_last_def Let_def wf_tensor_def numel_def)
qed

lemma chunks_map: "chunks m k (map f xs) = map (map f) (chunks m k xs)"
  by (simp add: chunks_def take_map drop_map)

lemma expand_data_map: "expand_data ns ms (map f xs) = map f (expand_data ns ms xs)"
proof (induction ns ms xs rule: expand_data.induct)
  case (1 n ns m ms xs)
  show ?case
  proof (cases "m = n")
    case True
    have "map (expand_data ns ms) (chunks m (numel ms) (map f xs))
            = map (\<lambda>c. map f (expand_data ns ms c)) (chunks m (numel ms) xs)"
      using "1.IH"(1) [OF True] by (simp add: chunks_map)
    then show ?thesis using True by (simp add: map_concat o_def)
  next
    case False
    with "1.IH"(2) show ?thesis by (simp add: map_concat)
  qed
qed simp_all

lemma expand_torch_exp: "expand s (torch_exp t) = torch_exp (expand s t)"
  by (simp add: expand_def torch_exp_def expand_data_map)

lemma clamp_log_std_shape:
  "shape (clamp_log_std m t) = shape t" "length (data (clamp_log_std m t)) = length (data t)"
  by (simp_all add: clamp_log_std_def clamp_scalar_def)

lemma fits_into_scale:
  "fits_into t s \<Longrightarrow> fits_into (torch_exp (clamp_log_std m t)) s"
  by (simp add: fits_into_def wf_tensor_def torch_exp_def clamp_log_std_shape)

lemma act_well_shaped:
  assumes "provide p states taken role = Inr (mean, ls)"
    and "shape mean = [n, k]" and "wf_tensor mean" and "fits_into ls [n, k]"
    and "bounds_fit m [n, k]"
    and "case taken of None \<Rightarrow> True | Some t \<Rightarrow> fits_into t [n, k]"
  obtains a lp d where
    "act p noise m states taken inference role
       = (m\<lparr>priv_log_std := Some (clamp_log_std m ls), priv_num_samples := Some n,
             priv_distribution := Some d\<rparr>, Inr (a, lp, mean))"
    "Normal mean (torch_exp (clamp_log_std m ls)) = Inr d"
    "loc d = mean" "scale d = torch_exp (expand [n, k] (clamp_log_std m ls))"
    "wf_tensor (scale d)"
    "clip m (rsample noise d) = Inr a" "shape a = [n, k]" "wf_tensor a"
    "shape lp = (if priv_reduction m = None then [n, k] else [n, 1])" "wf_tensor lp"
proof -
  let ?ls = "clamp_log_std m ls"
  from assms(2,4) have f: "fits_into (torch_exp ?ls) (shape mean)"
    by (simp add: fits_into_scale)
  from Normal_fits [OF assms(3) f] assms(2) obtain d where
    d: "Normal mean (torch_exp ?ls) = Inr d" "loc d = mean"
       "scale d = expand [n, k] (torch_exp ?ls)"
    by auto
  from wf_expand [OF f] d(3) assms(2) have ws: "wf_tensor (scale d)" "shape (scale d) = [n, k]"
    by (simp_all add: shape_expand)
  from d(2) assms(2,3) ws have wl: "wf_tensor (loc d)" "shape (scale d) = shape (loc d)"
    by simp_all
  from wf_rsample [OF wl(1) ws(1) wl(2), of noise] d(2) assms(2) have
    r: "shape (rsample noise d) = [n, k]" "wf_tensor (rsample noise d)"
    by simp_all
  from clip_fits [OF r(2)] assms(5) r(1) obtain a where
    a: "clip m (rsample noise d) = Inr a" "shape a = [n, k]" "wf_tensor a"
    by auto
  let ?v = "case taken of None \<Rightarrow> a | Some t \<Rightarrow> t"
  from fits_into_same [OF a(3)] a(2) have "fits_into a [n, k]" by simp
  with assms(6) d(2) assms(2) have "fits_into ?v (shape (loc d))"
    by (cases taken) simp_all
  from log_prob_fits [OF wl(1) ws(1) wl(2) this] d(2) assms(2) obtain lp0 where
    l: "log_prob d ?v = Inr lp0" "shape lp0 = [n, k]" "wf_tensor lp0"
    by auto
  let ?m' = "m\<lparr>priv_log_std := Some ?ls, priv_num_samples := Some n,
                priv_distribution := Some d\<rparr>"
  have "act p noise m states taken inference role = (?m', Inr (a, reduce m a lp0, mean))"
    unfolding act_Inr using assms(1,2) d(1) a(1) l(1) by simp
  with that [of d a "reduce m a lp0"] d ws a reduce_shape [OF a(2) l(2,3), of m]
  show ?thesis by (simp add: expand_torch_exp)
qed

lemma entropy_of_exp:
  "scale d = torch_exp t \<Longrightarrow>
   entropy d = Tensor (shape t) (map (\<lambda>x. 1 / 2 + 1 / 2 * ln (2 * pi) + x) (data t))"
  by (simp add: entropy_def torch_exp_def o_def)

lemma index_in_range:
  assumes "i < n" and "j < k"
  shows "i * k + j < n * (k::nat)"
proof -
  from assms(2) have "i * k + j < Suc i * k" by simp
  also from assms(1) have "Suc i * k \<le> n * k" by (intro mult_le_mono1) simp
  finally show ?thesis .
qed

lemma nth_concat_replicate:
  "length xs = k \<Longrightarrow> i < n \<Longrightarrow> j < k \<Longrightarrow> concat (replicate n xs) ! (i * k + j) = xs ! j"
proof (induction n arbitrary: i)
  case 0
  then show ?case by simp
next
  case (Suc n)
  show ?case
  proof (cases i)
    case 0
    with Suc.prems show ?thesis by (simp add: nth_append)
  next
    case (Suc i')
    with Suc.prems have "i' < n" by simp
    from Suc.IH [OF Suc.prems(1) this Suc.prems(3)] Suc Suc.prems(1) show ?thesis
      by (simp add: nth_append)
  qed
qed

lemma fits_into_row:
  "shape t = [k] \<Longrightarrow> wf_tensor t \<Longrightarrow> fits_into t [n, k]"
  by (simp add: fits_into_def broadcast_shapes_def pad_def)

lemma expand_data_equal:
  "expand_data (n # ns) (n # ms) xs = concat (map (expand_data ns ms) (chunks n (numel ms) xs))"
  by simp

lemma expand_data_repeat:
  "m \<noteq> n \<Longrightarrow> expand_data (n # ns) (m # ms) xs = concat (replicate n (expand_data ns ms xs))"
  by simp

lemma expand_rows:
  assumes "shape t = [k]" and "wf_tensor t"
  shows "data (expand [n, k] t) = concat (replicate n (data t))"
proof -
  from assms have len: "length (data t) = k" by (simp add: wf_tensor_def numel_def)
  then have same: "expand_data [k] [k] (data t) = data t"
    by (intro expand_data_same) (simp add: numel_def)
  from len have ch: "chunks 1 (numel [k]) (data t) = [data t]"
    by (simp add: chunks_def numel_def)
  have "expand_data [n, k] [1, k] (data t) = concat (replicate n (data t))"
  proof (cases "n = 1")
    case True
    have "expand_data [1, k] [1, k] (data t)
            = concat (map (expand_data [k] [k]) (chunks 1 (numel [k]) (data t)))"
      by (rule expand_data_equal)
    also have "\<dots> = data t"
      unfolding ch by (simp add: same del: expand_data.simps)
    finally show ?thesis using True by (simp del: expand_data.simps)
  next
    case False
    then have "1 \<noteq> n" by simp
    from expand_data_repeat [OF this, of "[k]" "[k]" "data t"] show ?thesis
      by (simp only: same)
  qed
  then show ?thesis using assms(1) by (simp add: expand_def pad_def del: expand_data.simps)
qed

lemma rsample_well_shaped:
  assumes "Normal mean (torch_exp (clamp_log_std m ls)) = Inr d"
    and "shape mean = [n, k]" and "wf_tensor mean" and "fits_into ls [n, k]"
  shows "shape (rsample noise d) = [n, k]" and "wf_tensor (rsample noise d)"
proof -
  from assms(2,4) have f: "fits_into (torch_exp (clamp_log_std m ls)) (shape mean)"
    by (simp add: fits_into_scale)
  from Normal_fits [OF assms(3) f] assms(1) have
    d: "loc d = mean" "scale d = expand (shape mean) (torch_exp (clamp_log_std m ls))"
    by auto
  from wf_expand [OF f] d(2) have "wf_tensor (scale d)" "shape (scale d) = shape (loc d)"
    by (simp_all add: shape_expand d(1))
  from wf_rsample [OF _ this, of noise] d(1) assms(2,3)
  show "shape (rsample noise d) = [n, k]" and "wf_tensor (rsample noise d)"
    by simp_all
qed

lemma clip_elements:
  assumes "clip_actions m" and "clip_actions_min m = Some lo" and "clip_actions_max m = Some hi"
    and "shape lo = [k]" and "shape hi = [k]" and "wf_tensor lo" and "wf_tensor hi"
    and "\<forall>j<k. data lo ! j \<le> data hi ! j"
    and "shape x = [n, k]" and "wf_tensor x"
    and "clip m x = Inr a"
  shows "shape a = [n, k]" and "length (data a) = n * k"
    and "\<forall>i<n. \<forall>j<k. data lo ! j \<le> data a ! (i * k + j) \<and> data a ! (i * k + j) \<le> data hi ! j"
proof -
  let ?lo = "concat (replicate n (data lo))" and ?hi = "concat (replicate n (data hi))"
  from assms(4,6) assms(5,7) have len: "length (data lo) = k" "length (data hi) = k"
    by (simp_all add: wf_tensor_def numel_def)
  then have ll: "length ?lo = n * k" "length ?hi = n * k"
    by (simp_all add: length_concat sum_list_replicate)
  from assms(9,10) have lx: "length (data x) = n * k" by (simp add: wf_tensor_def numel_def)
  have flo: "fits_into lo (shape x)" and fhi: "fits_into hi (shape x)"
    using assms(4-7,9) by (simp_all add: fits_into_row)
  have elo: "data (expand (shape x) lo) = ?lo" and ehi: "data (expand (shape x) hi) = ?hi"
    using assms(4-7,9) by (simp_all add: expand_rows)
  from assms(1,2,3,11) obtain old where old: "priv_backward_compatibility m = Some old"
    by (auto simp: clip_def split: option.splits)
  have res: "shape a = [n, k] \<and> length (data a) = n * k
     \<and> (\<forall>q<n * k. data a ! q = (if old then max (min (data x ! q) (?hi ! q)) (?lo ! q)
                                    else min (max (data x ! q) (?lo ! q)) (?hi ! q)))"
  proof (cases old)
    case True
    from binop_fits [OF assms(10) fhi, of min] obtain u where
      u: "torch_min x hi = Inr u" "shape u = shape x" "wf_tensor u"
         "data u = map2 min (data x) ?hi"
      by (auto simp: torch_min_def ehi)
    from flo u(2) have "fits_into lo (shape u)" by simp
    from binop_fits [OF u(3) this, of max] u(2) obtain b where
      b: "torch_max u lo = Inr b" "shape b = shape x" "data b = map2 max (data u) ?lo"
      by (auto simp: torch_max_def elo)
    from assms(1,2,3,11) old True u(1) b(1) have "a = b" by (simp add: clip_def)
    with b u(4) assms(9) lx ll True show ?thesis by simp
  next
    case False
    from binop_fits [OF assms(10) flo, of max] obtain u where
      u: "torch_max x lo = Inr u" "shape u = shape x" "wf_tensor u"
         "data u = map2 max (data x) ?lo"
      by (auto simp: torch_max_def elo)
    from fhi u(2) have "fits_into hi (shape u)" by simp
    from binop_fits [OF u(3) this, of min] u(2) obtain b where
      b: "torch_min u hi = Inr b" "shape b = shape x" "data b = map2 min (data u) ?hi"
      by (auto simp: torch_min_def ehi)
    from assms(1,2,3,11) old False u(1) b(1) have "a = b"
      by (simp add: clip_def clamp_tensor_def)
    with b u(4) assms(9) lx ll False show ?thesis by simp
  qed
  then show "shape a = [n, k]" and "length (data a) = n * k" by simp_all
  show "\<forall>i<n. \<forall>j<k. data lo ! j \<le> data a ! (i * k + j) \<and> data a ! (i * k + j) \<le> data hi ! j"
  proof (intro allI impI)
    fix i j assume ij: "i < n" "j < k"
    let ?q = "i * k + j"
    from index_in_range [OF ij] have q: "?q < n * k" .
    from nth_concat_replicate [OF len(1) ij] nth_concat_replicate [OF len(2) ij]
    have e: "?lo ! ?q = data lo ! j" "?hi ! ?q = data hi ! j" by simp_all
    from assms(8) ij(2) have le: "data lo ! j \<le> data hi ! j" by simp
    from res q have "data a ! ?q = (if old then max (min (data x ! ?q) (?hi ! ?q)) (?lo ! ?q)
                                    else min (max (data x ! ?q) (?lo ! ?q)) (?hi ! ?q))"
      by blast
    with e le show "data lo ! j \<le> data a ! ?q \<and> data a ! ?q \<le> data hi ! j"
      by (simp split: if_splits)
  qed
qed

lemma repeat_rows_row:
  assumes "shape t = [k] \<or> shape t = [1, k]"
  shows "repeat_rows t n = Inr (Tensor [n, k] (concat (replicate n (data t))))"
  using assms by (auto simp: repeat_rows_def pad_def)

lemma act_records:
  assumes "provide p states taken role = Inr (mean, ls)"
    and "shape mean = n # rest"
    and "snd (act p noise m states taken inference role) = Inr (a, lp, mu)"
  shows "priv_log_std (fst (act p noise m states taken inference role))
           = Some (clamp_log_std m ls)"
    and "priv_num_samples (fst (act p noise m states taken inference role)) = Some n"
proof -
  from act_success [OF assms(3)] obtain ls0 n' rest' d where
    p: "provide p states taken role = Inr (mu, ls0)" and
    s: "shape mu = n' # rest'" and
    st: "fst (act p noise m states taken inference role)
           = m\<lparr>priv_log_std := Some (clamp_log_std m ls0), priv_num_samples := Some n',
                priv_distribution := Some d\<rparr>"
    by metis
  from p assms(1) have eq: "mu = mean" "ls0 = ls" by simp_all
  with s assms(2) have "n' = n" by simp
  with st eq show
    "priv_log_std (fst (act p noise m states taken inference role)) = Some (clamp_log_std m ls)"
    "priv_num_samples (fst (act p noise m states taken inference role)) = Some n"
    by simp_all
qed

lemma log_prob_same_shape:
  assumes "wf_tensor (loc d)" and "wf_tensor (scale d)" and "shape (scale d) = shape (loc d)"
    and "shape v = shape (loc d)" and "wf_tensor v"
  shows "log_prob d v
           = Inr (Tensor (shape (loc d))
                (map (\<lambda>(x, l, s). log_density x l s)
                   (zip (data v) (zip (data (loc d)) (data (scale d))))))"
proof -
  from expand_same [OF assms(5)] assms(4) have v: "expand (shape (loc d)) v = v" by simp
  from expand_same [OF assms(1)] have l: "expand (shape (loc d)) (loc d) = loc d" .
  from expand_same [OF assms(2)] assms(3) have s: "expand (shape (loc d)) (scale d) = scale d"
    by simp
  show ?thesis by (simp add: log_prob_def assms(4) broadcast_same v l s)
qed

lemma log_density_same:
  assumes "0 < s"
  shows "log_density x l s = log_density y l s \<longleftrightarrow> (x - l)\<^sup>2 = (y - l)\<^sup>2"
  using assms by (simp add: log_density_def)

lemma reduce_data:
  assumes "shape l = [n, k]" and "length (data l) = n * k"
  shows "data (reduce m a l) = reduced (priv_reduction m) n k (data l)"
proof (cases "priv_reduction m")
  case None
  then show ?thesis by (simp add: reduce_def reduced_def unsqueeze_last_def)
next
  case (Some r)
  have mean: "map (\<lambda>c. sum_list c / real (length c)) (chunks n k (data l))
                = map (\<lambda>c. sum_list c / real k) (chunks n k (data l))"
    using chunk_length [OF assms(2)] by (intro map_cong) simp_all
  have "data (apply_reduction r l) = reduced (Some r) n k (data l)"
    using mean
    by (cases r)
       (simp_all add: reduced_def torch_mean_def torch_sum_def torch_prod_def
          shape_reduce_last [OF assms(1)])
  with Some show ?thesis
    by (simp add: reduce_def unsqueeze_last_def Let_def)
qed

lemma log_prob_taken_data:
  assumes "Normal mean (torch_exp (clamp_log_std m ls)) = Inr d"
    and "shape mean = [n, k]" and "wf_tensor mean" and "fits_into ls [n, k]"
    and "shape t = [n, k]" and "wf_tensor t"
    and "log_prob d t = Inr l"
  shows "data l = densities t mean (expand [n, k] (clamp_log_std m ls))"
    and "shape l = [n, k]" and "length (data l) = n * k"
proof -
  let ?e = "expand [n, k] (clamp_log_std m ls)"
  from assms(4) have f: "fits_into (clamp_log_std m ls) [n, k]"
    by (simp add: fits_into_def wf_tensor_def clamp_log_std_shape)
  from wf_expand [OF f] have len: "length (data ?e) = n * k"
    by (simp add: wf_tensor_def shape_expand numel_def)
  from fits_into_scale [OF assms(4), of m] assms(2)
  have "fits_into (torch_exp (clamp_log_std m ls)) (shape mean)" by simp
  from Normal_fits [OF assms(3) this] assms(1,2) have
    ld: "loc d = mean" and sd: "scale d = torch_exp ?e"
    by (auto simp: expand_torch_exp)
  from sd len have ws: "wf_tensor (scale d)" "shape (scale d) = shape (loc d)"
    by (simp_all add: wf_tensor_def torch_exp_def shape_expand numel_def ld assms(2))
  from assms(3) ld have wl: "wf_tensor (loc d)" by simp
  from assms(5) ld assms(2) have st: "shape t = shape (loc d)" by simp
  from log_prob_same_shape [OF wl ws st assms(6)] assms(7) have
    l: "l = Tensor [n, k] (map (\<lambda>(x, l, s). log_density x l s)
                (zip (data t) (zip (data mean) (data (scale d)))))"
    by (auto simp: ld assms(2))
  from l show "shape l = [n, k]" by simp
  from assms(6,5) have lt: "length (data t) = n * k"
    by (simp add: wf_tensor_def numel_def)
  from assms(3,2) have lm: "length (data mean) = n * k"
    by (simp add: wf_tensor_def numel_def)
  from l lt lm sd len show "length (data l) = n * k" by (simp add: torch_exp_def)
  from l sd show "data l = densities t mean ?e"
    by (simp add: densities_def torch_exp_def zip_map2 case_prod_unfold)
qed

lemma act_taken_data:
  assumes "snd (act p noise m states (Some t) inference role) = Inr (a, lp, mu)"
    and "provide p states (Some t) role = Inr (mu, ls)"
    and "shape mu = [n, k]" and "wf_tensor mu" and "fits_into ls [n, k]"
    and "shape t = [n, k]" and "wf_tensor t"
  shows "data lp = reduced (priv_reduction m) n k
                     (densities t mu (expand [n, k] (clamp_log_std m ls)))"
proof -
  from act_success [OF assms(1)] obtain ls0 d l where
    p: "provide p states (Some t) role = Inr (mu, ls0)" and
    nd: "Normal mu (torch_exp (clamp_log_std m ls0)) = Inr d" and
    l: "log_prob d (case Some t of None \<Rightarrow> a | Some t \<Rightarrow> t) = Inr l" and
    r: "lp = reduce m a l"
    by metis
  from p assms(2) have "ls0 = ls" by simp
  with nd have nd': "Normal mu (torch_exp (clamp_log_std m ls)) = Inr d" by simp
  from l have l': "log_prob d t = Inr l" by simp
  note d = log_prob_taken_data [OF nd' assms(3,4,5,6,7) l']
  from reduce_data [OF d(2,3), of m a] r d(1) show ?thesis by simp
qed

lemma densities_nth:
  assumes "length (data v) = q" and "length (data mean) = q" and "length (data e) = q"
    and "i < q"
  shows "densities v mean e ! i = log_density (data v ! i) (data mean ! i) (exp (data e ! i))"
  using assms by (simp add: densities_def)

section \<open>The claims\<close>



text \<open>
  C2, as the code has it. In a call of \<^verbatim>\<open>act\<close> that returns, the log probability is
  that of the taken actions when there are any, and of the action returned (the
  sample after the clipping of the actions) otherwise, under the normal
  distribution that the call built from the mean and the clamped log standard
  deviation, reduced as the model is configured. \<^verbatim>\<open>act\<close> hands the taken actions
  to the provider. For a second call with the same noise that differs only in the
  taken actions and for which the provider returns the same mean and log standard
  deviation, the distribution, the action and the mean returned are the same, and
  its log probability is that of its own taken actions under that distribution.
  With a mean and taken actions of shape \<open>[n, k]\<close>, the log probability holds the
  normal log densities of the taken actions, row by row summed, averaged or
  multiplied as the model is configured; without a reduction an element of it
  differs between the two calls exactly when the two taken actions of its place are
  at different distances from the mean.
\<close>

theorem log_prob_of_evaluated_action:
  assumes "snd (act p noise m states taken1 inference role) = Inr (a1, lp1, mu1)"
  shows "(\<exists>d ls l1.
            provide p states taken1 role = Inr (mu1, ls)
          \<and> Normal mu1 (torch_exp (clamp_log_std m ls)) = Inr d
          \<and> distribution (fst (act p noise m states taken1 inference role)) = Some d
          \<and> clip m (rsample noise d) = Inr a1
          \<and> log_prob d (case taken1 of None \<Rightarrow> a1 | Some t \<Rightarrow> t) = Inr l1
          \<and> lp1 = reduce m a1 l1
          \<and> (snd (act p noise m states taken2 inference role) = Inr (a2, lp2, mu2)
               \<and> provide p states taken2 role = provide p states taken1 role
             \<longrightarrow> a2 = a1 \<and> mu2 = mu1
                 \<and> distribution (fst (act p noise m states taken2 inference role)) = Some d
                 \<and> (\<exists>l2. log_prob d (case taken2 of None \<Rightarrow> a1 | Some t \<Rightarrow> t) = Inr l2
                        \<and> lp2 = reduce m a1 l2)))
    \<and> (taken1 = Some t1 \<and> provide p states taken1 role = Inr (mu1, log_std)
         \<and> shape mu1 = [n, k] \<and> wf_tensor mu1 \<and> fits_into log_std [n, k]
         \<and> shape t1 = [n, k] \<and> wf_tensor t1
       \<longrightarrow> data lp1 = reduced (priv_reduction m) n k
                         (densities t1 mu1 (expand [n, k] (clamp_log_std m log_std)))
           \<and> (snd (act p noise m states taken2 inference role) = Inr (a2, lp2, mu2)
                \<and> provide p states taken2 role = provide p states taken1 role
                \<and> taken2 = Some t2 \<and> shape t2 = [n, k] \<and> wf_tensor t2
              \<longrightarrow> data lp2 = reduced (priv_reduction m) n k
                                (densities t2 mu1 (expand [n, k] (clamp_log_std m log_std)))
                  \<and> (priv_reduction m = None \<and> i < n * k
                     \<longrightarrow> (data lp1 ! i \<noteq> data lp2 ! i)
                           = ((data t1 ! i - data mu1 ! i)\<^sup>2
                                \<noteq> (data t2 ! i - data mu1 ! i)\<^sup>2))))"
proof -
  let ?m1 = "fst (act p noise m states taken1 inference role)"
  let ?m2 = "fst (act p noise m states taken2 inference role)"
  let ?e = "expand [n, k] (clamp_log_std m log_std)"
  from act_success [OF assms] obtain ls n1 d l1 where
    p1: "provide p states taken1 role = Inr (mu1, ls)" and
    nd1: "Normal mu1 (torch_exp (clamp_log_std m ls)) = Inr d" and
    st1: "?m1 = m\<lparr>priv_log_std := Some (clamp_log_std m ls), priv_num_samples := Some n1,
                    priv_distribution := Some d\<rparr>" and
    c1: "clip m (rsample noise d) = Inr a1" and
    l1: "log_prob d (case taken1 of None \<Rightarrow> a1 | Some t \<Rightarrow> t) = Inr l1" and
    r1: "lp1 = reduce m a1 l1"
    by metis
  from st1 have d1: "distribution ?m1 = Some d" by (simp add: distribution_def)
  have second: "a2 = a1 \<and> mu2 = mu1 \<and> distribution ?m2 = Some d
                 \<and> (\<exists>l2. log_prob d (case taken2 of None \<Rightarrow> a1 | Some t \<Rightarrow> t) = Inr l2
                        \<and> lp2 = reduce m a1 l2)"
    if h: "snd (act p noise m states taken2 inference role) = Inr (a2, lp2, mu2)
               \<and> provide p states taken2 role = provide p states taken1 role"
  proof -
    from h have ret2: "snd (act p noise m states taken2 inference role) = Inr (a2, lp2, mu2)"
      and same: "provide p states taken2 role = provide p states taken1 role" by simp_all
    from act_success [OF ret2] obtain ls' n2 d' l2 where
      p2: "provide p states taken2 role = Inr (mu2, ls')" and
      nd2: "Normal mu2 (torch_exp (clamp_log_std m ls')) = Inr d'" and
      st2: "?m2 = m\<lparr>priv_log_std := Some (clamp_log_std m ls'), priv_num_samples := Some n2,
                      priv_distribution := Some d'\<rparr>" and
      c2: "clip m (rsample noise d') = Inr a2" and
      l2: "log_prob d' (case taken2 of None \<Rightarrow> a2 | Some t \<Rightarrow> t) = Inr l2" and
      r2: "lp2 = reduce m a2 l2"
      by metis
    from p1 p2 same have eq: "mu2 = mu1" "ls' = ls" by simp_all
    with nd1 nd2 have d: "d' = d" by simp
    with c1 c2 have a: "a2 = a1" by simp
    from st2 d have d2: "distribution ?m2 = Some d" by (simp add: distribution_def)
    from l2 r2 d a have "log_prob d (case taken2 of None \<Rightarrow> a1 | Some t \<Rightarrow> t) = Inr l2"
      and "lp2 = reduce m a1 l2" by (cases taken2; simp)+
    with a eq(1) d2 show ?thesis by blast
  qed
  have first: "\<exists>d ls l1.
            provide p states taken1 role = Inr (mu1, ls)
          \<and> Normal mu1 (torch_exp (clamp_log_std m ls)) = Inr d
          \<and> distribution ?m1 = Some d
          \<and> clip m (rsample noise d) = Inr a1
          \<and> log_prob d (case taken1 of None \<Rightarrow> a1 | Some t \<Rightarrow> t) = Inr l1
          \<and> lp1 = reduce m a1 l1
          \<and> (snd (act p noise m states taken2 inference role) = Inr (a2, lp2, mu2)
               \<and> provide p states taken2 role = provide p states taken1 role
             \<longrightarrow> a2 = a1 \<and> mu2 = mu1 \<and> distribution ?m2 = Some d
                 \<and> (\<exists>l2. log_prob d (case taken2 of None \<Rightarrow> a1 | Some t \<Rightarrow> t) = Inr l2
                        \<and> lp2 = reduce m a1 l2))"
    using p1 nd1 d1 c1 l1 r1 second by blast
  have third: "data lp1 = reduced (priv_reduction m) n k (densities t1 mu1 ?e)
           \<and> (snd (act p noise m states taken2 inference role) = Inr (a2, lp2, mu2)
                \<and> provide p states taken2 role = provide p states taken1 role
                \<and> taken2 = Some t2 \<and> shape t2 = [n, k] \<and> wf_tensor t2
              \<longrightarrow> data lp2 = reduced (priv_reduction m) n k (densities t2 mu1 ?e)
                  \<and> (priv_reduction m = None \<and> i < n * k
                     \<longrightarrow> (data lp1 ! i \<noteq> data lp2 ! i)
                           = ((data t1 ! i - data mu1 ! i)\<^sup>2
                                \<noteq> (data t2 ! i - data mu1 ! i)\<^sup>2)))"
    if h: "taken1 = Some t1 \<and> provide p states taken1 role = Inr (mu1, log_std)
         \<and> shape mu1 = [n, k] \<and> wf_tensor mu1 \<and> fits_into log_std [n, k]
         \<and> shape t1 = [n, k] \<and> wf_tensor t1"
  proof -
    from h have t1: "taken1 = Some t1" by simp
    from h t1 have pr: "provide p states (Some t1) role = Inr (mu1, log_std)" by simp
    from h have sm: "shape mu1 = [n, k]" and wm: "wf_tensor mu1"
      and fl: "fits_into log_std [n, k]"
      and s1: "shape t1 = [n, k]" and w1: "wf_tensor t1" by simp_all
    from assms t1 have ret1: "snd (act p noise m states (Some t1) inference role)
                                 = Inr (a1, lp1, mu1)" by simp
    from act_taken_data [OF ret1 pr sm wm fl s1 w1] have
      e1: "data lp1 = reduced (priv_reduction m) n k (densities t1 mu1 ?e)" .
    from fl have "fits_into (clamp_log_std m log_std) [n, k]"
      by (simp add: fits_into_def wf_tensor_def clamp_log_std_shape)
    from wf_expand [OF this] have le: "length (data ?e) = n * k"
      by (simp add: wf_tensor_def shape_expand numel_def)
    from wm sm have lm: "length (data mu1) = n * k" by (simp add: wf_tensor_def numel_def)
    from w1 s1 have lt1: "length (data t1) = n * k" by (simp add: wf_tensor_def numel_def)
    have rest: "data lp2 = reduced (priv_reduction m) n k (densities t2 mu1 ?e)
                  \<and> (priv_reduction m = None \<and> i < n * k
                     \<longrightarrow> (data lp1 ! i \<noteq> data lp2 ! i)
                           = ((data t1 ! i - data mu1 ! i)\<^sup>2
                                \<noteq> (data t2 ! i - data mu1 ! i)\<^sup>2))"
      if g: "snd (act p noise m states taken2 inference role) = Inr (a2, lp2, mu2)
                \<and> provide p states taken2 role = provide p states taken1 role
                \<and> taken2 = Some t2 \<and> shape t2 = [n, k] \<and> wf_tensor t2"
    proof -
      from g have t2: "taken2 = Some t2" and s2: "shape t2 = [n, k]" and w2: "wf_tensor t2"
        by simp_all
      from g second have mu: "mu2 = mu1" by blast
      from g t2 mu have ret2: "snd (act p noise m states (Some t2) inference role)
                                 = Inr (a2, lp2, mu1)" by simp
      from g t1 t2 pr have pr2: "provide p states (Some t2) role = Inr (mu1, log_std)" by simp
      from act_taken_data [OF ret2 pr2 sm wm fl s2 w2] have
        e2: "data lp2 = reduced (priv_reduction m) n k (densities t2 mu1 ?e)" .
      from w2 s2 have lt2: "length (data t2) = n * k" by (simp add: wf_tensor_def numel_def)
      have "(data lp1 ! i \<noteq> data lp2 ! i)
              = ((data t1 ! i - data mu1 ! i)\<^sup>2 \<noteq> (data t2 ! i - data mu1 ! i)\<^sup>2)"
        if n: "priv_reduction m = None \<and> i < n * k"
      proof -
        from n have i: "i < n * k" by simp
        from n e1 densities_nth [OF lt1 lm le i] have
          "data lp1 ! i = log_density (data t1 ! i) (data mu1 ! i) (exp (data ?e ! i))"
          by (simp add: reduced_def)
        moreover from n e2 densities_nth [OF lt2 lm le i] have
          "data lp2 ! i = log_density (data t2 ! i) (data mu1 ! i) (exp (data ?e ! i))"
          by (simp add: reduced_def)
        ultimately show ?thesis
          using log_density_same [of "exp (data ?e ! i)" "data t1 ! i" "data mu1 ! i"
                  "data t2 ! i"]
          by simp
      qed
      with e2 show ?thesis by blast
    qed
    from e1 rest show ?thesis by blast
  qed
  from first third show ?thesis by blast
qed

theorem log_prob_of_evaluated_action_witness:
  "snd (act (stub_provider (Tensor [1, 2] [0, 0]) (Tensor [2] [0, 0])) (const_noise 3)
          (plain_model\<lparr>priv_reduction := None\<rparr>) example_states
          (Some (Tensor [1, 2] [1, 2])) False '''')
     = Inr (Tensor [1, 2] [3, 3],
            Tensor [1, 2] [- (1 / 2) - ln (sqrt (2 * pi)), - 2 - ln (sqrt (2 * pi))],
            Tensor [1, 2] [0, 0])
   \<and> snd (act (stub_provider (Tensor [1, 2] [0, 0]) (Tensor [2] [0, 0])) (const_noise 3)
          (plain_model\<lparr>priv_reduction := None\<rparr>) example_states
          (Some (Tensor [1, 2] [2, 1])) False '''')
     = Inr (Tensor [1, 2] [3, 3],
            Tensor [1, 2] [- 2 - ln (sqrt (2 * pi)), - (1 / 2) - ln (sqrt (2 * pi))],
            Tensor [1, 2] [0, 0])
   \<and> provide (stub_provider (Tensor [1, 2] [0, 0]) (Tensor [2] [0, 0])) example_states
        (Some (Tensor [1, 2] [2, 1])) ''''
     = provide (stub_provider (Tensor [1, 2] [0, 0]) (Tensor [2] [0, 0])) example_states
        (Some (Tensor [1, 2] [1, 2])) ''''
   \<and> provide (stub_provider (Tensor [1, 2] [0, 0]) (Tensor [2] [0, 0])) example_states
        (Some (Tensor [1, 2] [1, 2])) '''' = Inr (Tensor [1, 2] [0, 0], Tensor [2] [0, 0])
   \<and> priv_reduction (plain_model\<lparr>priv_reduction := None\<rparr>) = None
   \<and> wf_tensor (Tensor [1, 2] [0, 0]) \<and> fits_into (Tensor [2] [0, 0]) [1, 2]
   \<and> wf_tensor (Tensor [1, 2] [1, 2]) \<and> wf_tensor (Tensor [1, 2] [2, 1])
   \<and> reduced None 1 2
        (densities (Tensor [1, 2] [1, 2]) (Tensor [1, 2] [0, 0])
           (expand [1, 2] (clamp_log_std (plain_model\<lparr>priv_reduction := None\<rparr>)
              (Tensor [2] [0, 0]))))
       = [- (1 / 2) - ln (sqrt (2 * pi)), - 2 - ln (sqrt (2 * pi))]
   \<and> (data (Tensor [1, 2] [- (1 / 2) - ln (sqrt (2 * pi)), - 2 - ln (sqrt (2 * pi))]) ! 0
        \<noteq> data (Tensor [1, 2] [- 2 - ln (sqrt (2 * pi)), - (1 / 2) - ln (sqrt (2 * pi))]) ! 0)"
proof -
  let ?p = "stub_provider (Tensor [1, 2] [0, 0]) (Tensor [2] [0, 0])"
  let ?m = "plain_model\<lparr>priv_reduction := None\<rparr>"
  have h1: "snd (act ?p (const_noise 3) ?m example_states (Some (Tensor [1, 2] [1, 2])) False '''')
     = Inr (Tensor [1, 2] [3, 3],
            Tensor [1, 2] [- (1 / 2) - ln (sqrt (2 * pi)), - 2 - ln (sqrt (2 * pi))],
            Tensor [1, 2] [0, 0])"
    by (simp add: eval_defs upt_rec numeral_2_eq_2)
  have h2: "snd (act ?p (const_noise 3) ?m example_states (Some (Tensor [1, 2] [2, 1])) False '''')
     = Inr (Tensor [1, 2] [3, 3],
            Tensor [1, 2] [- 2 - ln (sqrt (2 * pi)), - (1 / 2) - ln (sqrt (2 * pi))],
            Tensor [1, 2] [0, 0])"
    by (simp add: eval_defs upt_rec numeral_2_eq_2)
  have h3: "provide ?p example_states (Some (Tensor [1, 2] [2, 1])) ''''
     = provide ?p example_states (Some (Tensor [1, 2] [1, 2])) ''''"
    by (simp add: provide_def stub_provider_def)
  have h4: "provide ?p example_states (Some (Tensor [1, 2] [1, 2])) ''''
     = Inr (Tensor [1, 2] [0, 0], Tensor [2] [0, 0])"
    by (simp add: provide_def stub_provider_def)
  have h5: "priv_reduction ?m = None" by simp
  have h6: "wf_tensor (Tensor [1, 2] [0, 0])" "wf_tensor (Tensor [1, 2] [1, 2])"
    "wf_tensor (Tensor [1, 2] [2, 1])"
    by (simp_all add: wf_tensor_def numel_def)
  have h7: "fits_into (Tensor [2] [0, 0]) [1, 2]"
    by (simp add: fits_into_def wf_tensor_def numel_def broadcast_shapes_def pad_def)
  have h8: "reduced None 1 2
        (densities (Tensor [1, 2] [1, 2]) (Tensor [1, 2] [0, 0])
           (expand [1, 2] (clamp_log_std ?m (Tensor [2] [0, 0]))))
       = [- (1 / 2) - ln (sqrt (2 * pi)), - 2 - ln (sqrt (2 * pi))]"
    by (simp add: reduced_def densities_def eval_defs upt_rec numeral_2_eq_2)
  note t = log_prob_of_evaluated_action [OF h1, of "Some (Tensor [1, 2] [2, 1])"
        "Tensor [1, 2] [3, 3]"
        "Tensor [1, 2] [- 2 - ln (sqrt (2 * pi)), - (1 / 2) - ln (sqrt (2 * pi))]"
        "Tensor [1, 2] [0, 0]" "Tensor [1, 2] [1, 2]" "Tensor [2] [0, 0]" 1 2
        "Tensor [1, 2] [2, 1]" 0]
  have c1: "Some (Tensor [1, 2] [1, 2]) = Some (Tensor [1, 2] [1, 2])
         \<and> provide ?p example_states (Some (Tensor [1, 2] [1, 2])) ''''
             = Inr (Tensor [1, 2] [0, 0], Tensor [2] [0, 0])
         \<and> shape (Tensor [1, 2] [0, 0]) = [1, 2] \<and> wf_tensor (Tensor [1, 2] [0, 0])
         \<and> fits_into (Tensor [2] [0, 0]) [1, 2]
         \<and> shape (Tensor [1, 2] [1, 2]) = [1, 2] \<and> wf_tensor (Tensor [1, 2] [1, 2])"
    using h4 h6 h7 by simp
  have c2: "snd (act ?p (const_noise 3) ?m example_states (Some (Tensor [1, 2] [2, 1])) False '''')
             = Inr (Tensor [1, 2] [3, 3],
                    Tensor [1, 2] [- 2 - ln (sqrt (2 * pi)), - (1 / 2) - ln (sqrt (2 * pi))],
                    Tensor [1, 2] [0, 0])
         \<and> provide ?p example_states (Some (Tensor [1, 2] [2, 1])) ''''
             = provide ?p example_states (Some (Tensor [1, 2] [1, 2])) ''''
         \<and> Some (Tensor [1, 2] [2, 1]) = Some (Tensor [1, 2] [2, 1])
         \<and> shape (Tensor [1, 2] [2, 1]) = [1, 2] \<and> wf_tensor (Tensor [1, 2] [2, 1])"
    using h2 h3 h6 by simp
  have c3: "priv_reduction ?m = None \<and> (0::nat) < 1 * 2" by simp
  from t c1 c2 c3 have ne:
    "(data (Tensor [1, 2] [- (1 / 2) - ln (sqrt (2 * pi)), - 2 - ln (sqrt (2 * pi))]) ! 0
        \<noteq> data (Tensor [1, 2] [- 2 - ln (sqrt (2 * pi)), - (1 / 2) - ln (sqrt (2 * pi))]) ! 0)
     = ((data (Tensor [1, 2] [1, 2]) ! 0 - data (Tensor [1, 2] [0, 0]) ! 0)\<^sup>2
          \<noteq> (data (Tensor [1, 2] [2, 1]) ! 0 - data (Tensor [1, 2] [0, 0]) ! 0)\<^sup>2)"
    by blast
  show ?thesis
    using h1 h2 h3 h4 h5 h6 h7 h8 ne by simp
qed

theorem taken_actions_counterexample:
  "snd (act (echo_provider (Tensor [1, 1] [0]) (Tensor [1] [0])) (const_noise 0) plain_model
          example_states (Some (Tensor [1, 1] [1])) False '''')
     = Inr (Tensor [1, 1] [1], Tensor [1, 1] [- ln (sqrt (2 * pi))], Tensor [1, 1] [1])
   \<and> snd (act (echo_provider (Tensor [1, 1] [0]) (Tensor [1] [0])) (const_noise 0) plain_model
          example_states (Some (Tensor [1, 1] [2])) False '''')
     = Inr (Tensor [1, 1] [2], Tensor [1, 1] [- ln (sqrt (2 * pi))], Tensor [1, 1] [2])
   \<and> snd (act (stub_provider (Tensor [1, 1] [0]) (Tensor [1] [0])) (const_noise 0) plain_model
          example_states (Some (Tensor [1, 1] [1])) False '''')
     = Inr (Tensor [1, 1] [0], Tensor [1, 1] [- (1 / 2) - ln (sqrt (2 * pi))], Tensor [1, 1] [0])
   \<and> snd (act (stub_provider (Tensor [1, 1] [0]) (Tensor [1] [0])) (const_noise 0) plain_model
          example_states (Some (Tensor [1, 1] [- 1])) False '''')
     = Inr (Tensor [1, 1] [0], Tensor [1, 1] [- (1 / 2) - ln (sqrt (2 * pi))], Tensor [1, 1] [0])"
  by (simp add: eval_defs)

text \<open>
  C3. For a batch of \<open>n\<close> states and an action dimension \<open>k\<close>: when the mean has
  shape \<open>[n, k]\<close>, the log standard deviation, the taken actions (if any) and the
  bounds of the actions (if the model clips) fit into that shape, \<^verbatim>\<open>act\<close> returns,
  and the log probability it returns has shape \<open>[n, 1]\<close> with \<open>n\<close> elements when the
  model was configured with the reduction \<^verbatim>\<open>sum\<close>, \<^verbatim>\<open>mean\<close> or \<^verbatim>\<open>prod\<close>, and shape
  \<open>[n, k]\<close> with \<open>n * k\<close> elements when it was configured with \<^verbatim>\<open>none\<close>.
\<close>

theorem log_prob_shape:
  assumes "provide p states taken_actions role = Inr (mean, log_std)"
    and "shape mean = [n, k]" and "wf_tensor mean" and "fits_into log_std [n, k]"
    and "bounds_fit m [n, k]"
    and "case taken_actions of None \<Rightarrow> True | Some t \<Rightarrow> fits_into t [n, k]"
    and "priv_reduction m = select_reduction reduction" and "reduction \<in> set accepted"
  shows "\<exists>a lp mu. snd (act p noise m states taken_actions inference role) = Inr (a, lp, mu)
           \<and> shape lp = (if reduction = ''none'' then [n, k] else [n, 1])
           \<and> length (data lp) = (if reduction = ''none'' then n * k else n)"
proof -
  from act_well_shaped [OF assms(1-6), of noise inference] obtain a lp m' where
    r: "act p noise m states taken_actions inference role = (m', Inr (a, lp, mean))"
       "shape lp = (if priv_reduction m = None then [n, k] else [n, 1])" "wf_tensor lp"
    by metis
  from assms(7,8) have "priv_reduction m = None \<longleftrightarrow> reduction = ''none''"
    by (auto simp: select_reduction_def accepted_def)
  with r show ?thesis
    by (auto simp: wf_tensor_def numel_def)
qed

theorem log_prob_shape_witness:
  "provide (stub_provider (Tensor [2, 2] [0, 0, 0, 0]) (Tensor [2] [0, 0])) example_states None ''''
     = Inr (Tensor [2, 2] [0, 0, 0, 0], Tensor [2] [0, 0])
   \<and> wf_tensor (Tensor [2, 2] [0, 0, 0, 0]) \<and> fits_into (Tensor [2] [0, 0]) [2, 2]
   \<and> bounds_fit plain_model [2, 2]
   \<and> priv_reduction plain_model = select_reduction ''sum'' \<and> ''sum'' \<in> set accepted
   \<and> (\<exists>a lp mu.
         snd (act (stub_provider (Tensor [2, 2] [0, 0, 0, 0]) (Tensor [2] [0, 0])) (const_noise 1)
                plain_model example_states None False '''') = Inr (a, lp, mu)
         \<and> shape lp = [2, 1] \<and> length (data lp) = 2)
   \<and> priv_reduction (plain_model\<lparr>priv_reduction := None\<rparr>) = select_reduction ''none''
   \<and> ''none'' \<in> set accepted
   \<and> (\<exists>a lp mu.
         snd (act (stub_provider (Tensor [2, 2] [0, 0, 0, 0]) (Tensor [2] [0, 0])) (const_noise 1)
                (plain_model\<lparr>priv_reduction := None\<rparr>) example_states None False '''')
           = Inr (a, lp, mu)
         \<and> shape lp = [2, 2] \<and> length (data lp) = 4)"
proof -
  let ?p = "stub_provider (Tensor [2, 2] [0, 0, 0, 0]) (Tensor [2] [0, 0])"
  let ?m = "plain_model\<lparr>priv_reduction := None\<rparr>"
  have h1: "provide ?p example_states None ''''
              = Inr (Tensor [2, 2] [0, 0, 0, 0], Tensor [2] [0, 0])"
    by (simp add: provide_def stub_provider_def)
  have h2: "shape (Tensor [2, 2] [0, 0, 0, 0]) = [2, 2]" by simp
  have h3: "wf_tensor (Tensor [2, 2] [0, 0, 0, 0])" by (simp add: wf_tensor_def numel_def)
  have h4: "fits_into (Tensor [2] [0, 0]) [2, 2]"
    by (simp add: fits_into_def wf_tensor_def numel_def broadcast_shapes_def pad_def)
  have h5: "bounds_fit plain_model [2, 2]" "bounds_fit ?m [2, 2]"
    by (simp_all add: bounds_fit_def plain_model_def)
  have h6: "case None :: tensor option of None \<Rightarrow> True | Some t \<Rightarrow> fits_into t [2, 2]"
    by simp
  have h7: "priv_reduction plain_model = select_reduction ''sum''"
    "priv_reduction ?m = select_reduction ''none''"
    by (simp_all add: plain_model_def select_reduction_def)
  have h8: "''sum'' \<in> set accepted" "''none'' \<in> set accepted"
    by (simp_all add: accepted_def)
  show ?thesis
    using h1 h3 h4 h5 h7 h8
      log_prob_shape [OF h1 h2 h3 h4 h5(1) h6 h7(1) h8(1), of "const_noise 1" False]
      log_prob_shape [OF h1 h2 h3 h4 h5(2) h6 h7(2) h8(2), of "const_noise 1" False]
    by simp
qed

text \<open>
  C4. When the model clips actions, with bounds \<open>low\<close> and \<open>high\<close> of one value per
  action dimension and \<open>low \<le> high\<close> in each dimension, every element of the action
  that \<^verbatim>\<open>act\<close> returns lies between the bounds of its dimension, whatever the
  states, the mean, the log standard deviation and the noise are, and on either
  side of the torch version switch. The action returned is the clipped sample of
  the distribution built in this call, and without taken actions the log
  probability is evaluated at that clipped action.
\<close>

theorem actions_within_bounds:
  assumes "clip_actions m"
    and "clip_actions_min m = Some lo" and "clip_actions_max m = Some hi"
    and "shape lo = [k]" and "shape hi = [k]" and "wf_tensor lo" and "wf_tensor hi"
    and "\<forall>j<k. data lo ! j \<le> data hi ! j"
    and "provide p states taken_actions role = Inr (mean, log_std)"
    and "shape mean = [n, k]" and "wf_tensor mean" and "fits_into log_std [n, k]"
    and "snd (act p noise m states taken_actions inference role) = Inr (a, lp, mu)"
  shows "shape a = [n, k] \<and> length (data a) = n * k
    \<and> (\<forall>i<n. \<forall>j<k. data lo ! j \<le> data a ! (i * k + j) \<and> data a ! (i * k + j) \<le> data hi ! j)
    \<and> (\<exists>d. distribution (fst (act p noise m states taken_actions inference role)) = Some d
          \<and> clip m (rsample noise d) = Inr a
          \<and> (taken_actions = None \<longrightarrow> (\<exists>l. log_prob d a = Inr l \<and> lp = reduce m a l)))"
proof -
  from act_success [OF assms(13)] obtain ls0 n' d lp0 where
    p: "provide p states taken_actions role = Inr (mu, ls0)" and
    nd: "Normal mu (torch_exp (clamp_log_std m ls0)) = Inr d" and
    st: "fst (act p noise m states taken_actions inference role)
           = m\<lparr>priv_log_std := Some (clamp_log_std m ls0), priv_num_samples := Some n',
                priv_distribution := Some d\<rparr>" and
    c: "clip m (rsample noise d) = Inr a" and
    l: "log_prob d (case taken_actions of None \<Rightarrow> a | Some t \<Rightarrow> t) = Inr lp0" and
    r: "lp = reduce m a lp0"
    by metis
  from p assms(9) have eq: "mu = mean" "ls0 = log_std" by simp_all
  from nd eq have nd': "Normal mean (torch_exp (clamp_log_std m log_std)) = Inr d" by simp
  from rsample_well_shaped [OF nd' assms(10,11,12), of noise] have
    x: "shape (rsample noise d) = [n, k]" "wf_tensor (rsample noise d)" .
  from clip_elements [OF assms(1-8) x c] have
    e: "shape a = [n, k]" "length (data a) = n * k"
       "\<forall>i<n. \<forall>j<k. data lo ! j \<le> data a ! (i * k + j) \<and> data a ! (i * k + j) \<le> data hi ! j" .
  from st have "distribution (fst (act p noise m states taken_actions inference role)) = Some d"
    by (simp add: distribution_def)
  moreover from l r have "taken_actions = None \<longrightarrow> (\<exists>l. log_prob d a = Inr l \<and> lp = reduce m a l)"
    by auto
  ultimately show ?thesis using e c by blast
qed

theorem actions_within_bounds_witness:
  "clip_actions box_model
   \<and> clip_actions_min box_model = Some (Tensor [1] [- 1])
   \<and> clip_actions_max box_model = Some (Tensor [1] [1])
   \<and> wf_tensor (Tensor [1] [- 1]) \<and> wf_tensor (Tensor [1] [1])
   \<and> data (Tensor [1] [- 1]) ! 0 \<le> data (Tensor [1] [1]) ! 0
   \<and> provide (stub_provider (Tensor [2, 1] [0, 0]) (Tensor [1] [0])) example_states None ''''
       = Inr (Tensor [2, 1] [0, 0], Tensor [1] [0])
   \<and> wf_tensor (Tensor [2, 1] [0, 0]) \<and> fits_into (Tensor [1] [0]) [2, 1]
   \<and> snd (act (stub_provider (Tensor [2, 1] [0, 0]) (Tensor [1] [0])) (const_noise 5) box_model
            example_states None False '''')
       = Inr (Tensor [2, 1] [1, 1],
              Tensor [2, 1] [- (1 / 2) - ln (sqrt (2 * pi)), - (1 / 2) - ln (sqrt (2 * pi))],
              Tensor [2, 1] [0, 0])
   \<and> data (Tensor [1] [- 1]) ! 0 \<le> data (Tensor [2, 1] [1, 1]) ! 0
   \<and> data (Tensor [2, 1] [1, 1]) ! 0 \<le> data (Tensor [1] [1]) ! 0
   \<and> data (Tensor [1] [- 1]) ! 0 \<le> data (Tensor [2, 1] [1, 1]) ! 1
   \<and> data (Tensor [2, 1] [1, 1]) ! 1 \<le> data (Tensor [1] [1]) ! 0"
proof -
  let ?p = "stub_provider (Tensor [2, 1] [0, 0]) (Tensor [1] [0])"
  have h1: "clip_actions box_model" by (simp add: box_model_def)
  have h2: "clip_actions_min box_model = Some (Tensor [1] [- 1])" by (simp add: box_model_def)
  have h3: "clip_actions_max box_model = Some (Tensor [1] [1])" by (simp add: box_model_def)
  have h4: "shape (Tensor [1] [- 1]) = [1]" "shape (Tensor [1] [1]) = [1]" by simp_all
  have h6: "wf_tensor (Tensor [1] [- 1])" "wf_tensor (Tensor [1] [1])"
    by (simp_all add: wf_tensor_def numel_def)
  have h8: "\<forall>j<1. data (Tensor [1] [- 1]) ! j \<le> data (Tensor [1] [1]) ! j" by simp
  have h9: "provide ?p example_states None '''' = Inr (Tensor [2, 1] [0, 0], Tensor [1] [0])"
    by (simp add: provide_def stub_provider_def)
  have h10: "shape (Tensor [2, 1] [0, 0]) = [2, 1]" by simp
  have h11: "wf_tensor (Tensor [2, 1] [0, 0])" by (simp add: wf_tensor_def numel_def)
  have h12: "fits_into (Tensor [1] [0]) [2, 1]"
    by (simp add: fits_into_def wf_tensor_def numel_def broadcast_shapes_def pad_def)
  have h13: "snd (act ?p (const_noise 5) box_model example_states None False '''')
       = Inr (Tensor [2, 1] [1, 1],
              Tensor [2, 1] [- (1 / 2) - ln (sqrt (2 * pi)), - (1 / 2) - ln (sqrt (2 * pi))],
              Tensor [2, 1] [0, 0])"
    by (simp add: eval_defs upt_rec numeral_2_eq_2)
  show ?thesis
    using h1 h2 h3 h6 h8 h9 h11 h12 h13
      actions_within_bounds [OF h1 h2 h3 h4 h6 h8 h9 h10 h11 h12 h13]
    by simp
qed

text \<open>
  C5, as the code has it. When the constructor returns a model, the stored flag
  \<open>clip_actions\<close> is the requested flag and the action space being a
  \<^verbatim>\<open>gym.Space\<close>, which for a returned model is the same as the requested flag and
  the space having bounds. When the action space is not a \<^verbatim>\<open>gym.Space\<close> (a size or
  a sequence of sizes), the constructor raises nothing for any accepted reduction
  and the flag is off, whatever was requested. With the flag off, \<^verbatim>\<open>act\<close> returns
  the sample as drawn and leaves the flag off.
\<close>

theorem clip_flag_resolved:
  "(init space torch_version clip_requested clip_std min_log_std max_log_std reduction = Inr m
      \<longrightarrow> clip_actions m = (clip_requested \<and> is_gym_space space)
          \<and> clip_actions m = (clip_requested \<and> has_bounds space))
   \<and> (\<not> is_gym_space space \<and> reduction \<in> set accepted
      \<longrightarrow> (\<exists>m0. init space torch_version clip_requested clip_std min_log_std max_log_std
                    reduction = Inr m0 \<and> \<not> clip_actions m0))
   \<and> (\<not> clip_actions m1 \<and> snd (act p noise m1 states taken_actions inference role)
                               = Inr (a, lp, mu)
      \<longrightarrow> \<not> clip_actions (fst (act p noise m1 states taken_actions inference role))
          \<and> (\<exists>d. priv_distribution (fst (act p noise m1 states taken_actions inference role))
                    = Some d \<and> a = rsample noise d))"
proof (intro conjI impI)
  assume i: "init space torch_version clip_requested clip_std min_log_std max_log_std reduction
               = Inr m"
  show g: "clip_actions m = (clip_requested \<and> is_gym_space space)"
    by (rule init_fields(1) [OF i])
  show "clip_actions m = (clip_requested \<and> has_bounds space)"
  proof (cases "clip_actions m")
    case True
    with init_fields(2) [OF i] g show ?thesis by (auto simp: has_bounds_def)
  next
    case False
    with g show ?thesis by (cases space) (auto simp: has_bounds_def)
  qed
next
  assume "\<not> is_gym_space space \<and> reduction \<in> set accepted"
  then show "\<exists>m0. init space torch_version clip_requested clip_std min_log_std max_log_std
                    reduction = Inr m0 \<and> \<not> clip_actions m0"
    by (simp add: init_def accepted_def Let_def)
next
  let ?m = "fst (act p noise m1 states taken_actions inference role)"
  assume h: "\<not> clip_actions m1 \<and> snd (act p noise m1 states taken_actions inference role)
                               = Inr (a, lp, mu)"
  then have off: "\<not> clip_actions m1" and
    r: "snd (act p noise m1 states taken_actions inference role) = Inr (a, lp, mu)"
    by simp_all
  from act_success [OF r] obtain ls n d where
    m': "?m = m1\<lparr>priv_log_std := Some ls, priv_num_samples := Some n,
                  priv_distribution := Some d\<rparr>" and
    c: "clip m1 (rsample noise d) = Inr a"
    by metis
  from m' off show "\<not> clip_actions ?m" by simp
  from m' have "priv_distribution ?m = Some d" by simp
  moreover from c off have "a = rsample noise d" by (simp add: clip_off)
  ultimately show "\<exists>d. priv_distribution ?m = Some d \<and> a = rsample noise d" by blast
qed

theorem clip_flag_resolved_witness:
  "init (Size 1) (1, 10) True True (- 20) 2 ''sum'' = Inr plain_model
   \<and> \<not> clip_actions plain_model
   \<and> snd (act (stub_provider (Tensor [1, 1] [5]) (Tensor [1] [0])) (const_noise 0) plain_model
          example_states None True '''')
     = Inr (Tensor [1, 1] [5], Tensor [1, 1] [- ln (sqrt (2 * pi))], Tensor [1, 1] [5])
   \<and> \<not> clip_actions (fst (act (stub_provider (Tensor [1, 1] [5]) (Tensor [1] [0]))
          (const_noise 0) plain_model example_states None True ''''))"
proof -
  let ?p = "stub_provider (Tensor [1, 1] [5]) (Tensor [1] [0])"
  have h1: "init (Size 1) (1, 10) True True (- 20) 2 ''sum'' = Inr plain_model"
    by (simp add: init_def plain_model_def select_reduction_def)
  have h2: "\<not> clip_actions plain_model" by (simp add: plain_model_def)
  have h3: "snd (act ?p (const_noise 0) plain_model example_states None True '''')
     = Inr (Tensor [1, 1] [5], Tensor [1, 1] [- ln (sqrt (2 * pi))], Tensor [1, 1] [5])"
    by (simp add: eval_defs)
  show ?thesis
    using h1 h2 h3
      clip_flag_resolved [of "Size 1" "(1, 10)" True True "- 20" 2 "''sum''" plain_model
        plain_model ?p "const_noise 0" example_states None True "''''"
        "Tensor [1, 1] [5]" "Tensor [1, 1] [- ln (sqrt (2 * pi))]" "Tensor [1, 1] [5]"]
    by simp
qed

theorem clip_flag_counterexample:
  "\<not> has_bounds (Discrete 3)
   \<and> init (Discrete 3) (1, 10) True True (- 20) 2 ''sum'' = Inl AttributeError"
  by (simp add: has_bounds_def init_def)

text \<open>
  C6, as the code has it. When the provider returns a log standard deviation with
  one value per action dimension (shape \<open>[k]\<close> or \<open>[1, k]\<close>) and a mean of shape
  \<open>[n, k]\<close>, then after a call of \<^verbatim>\<open>act\<close> that returned, \<^verbatim>\<open>get_log_std\<close>
  returns a tensor of shape \<open>[n, k]\<close> with \<open>n * k\<close> elements, every row of which is
  the clamped log standard deviation that this call recorded.
\<close>

theorem log_std_repeated:
  assumes "provide p states taken_actions role = Inr (mean, log_std)"
    and "shape mean = [n, k]"
    and "shape log_std = [k] \<or> shape log_std = [1, k]"
    and "wf_tensor log_std"
    and "snd (act p noise m states taken_actions inference role) = Inr (a, lp, mu)"
  shows "priv_log_std (fst (act p noise m states taken_actions inference role))
           = Some (clamp_log_std m log_std)
    \<and> priv_num_samples (fst (act p noise m states taken_actions inference role)) = Some n
    \<and> (\<exists>t. get_log_std (fst (act p noise m states taken_actions inference role)) = Inr t
          \<and> shape t = [n, k] \<and> length (data t) = n * k
          \<and> (\<forall>i<n. \<forall>j<k. data t ! (i * k + j) = data (clamp_log_std m log_std) ! j))"
proof -
  let ?m' = "fst (act p noise m states taken_actions inference role)"
  let ?ls = "clamp_log_std m log_std"
  let ?t = "Tensor [n, k] (concat (replicate n (data ?ls)))"
  from act_records [OF assms(1,2,5)] have
    r: "priv_log_std ?m' = Some ?ls" "priv_num_samples ?m' = Some n" .
  from assms(3) have "shape ?ls = [k] \<or> shape ?ls = [1, k]"
    by (simp add: clamp_log_std_shape)
  from repeat_rows_row [OF this] r have g: "get_log_std ?m' = Inr ?t"
    by (simp add: get_log_std_def)
  from assms(3,4) have len: "length (data ?ls) = k"
    by (auto simp: clamp_log_std_shape wf_tensor_def numel_def)
  then have total: "length (data ?t) = n * k"
    by (simp add: length_concat sum_list_replicate)
  have rows: "\<forall>i<n. \<forall>j<k. data ?t ! (i * k + j) = data ?ls ! j"
    using nth_concat_replicate [OF len] by simp
  from g total rows have
    "\<exists>t. get_log_std ?m' = Inr t \<and> shape t = [n, k] \<and> length (data t) = n * k
        \<and> (\<forall>i<n. \<forall>j<k. data t ! (i * k + j) = data ?ls ! j)"
    by (intro exI [of _ ?t]) simp
  with r show ?thesis by blast
qed

theorem log_std_repeated_witness:
  "provide (stub_provider (Tensor [2, 1] [0, 0]) (Tensor [1] [5]))
       (Tensor [2, 4] [0, 0, 0, 0, 0, 0, 0, 0]) None ''''
     = Inr (Tensor [2, 1] [0, 0], Tensor [1] [5])
   \<and> wf_tensor (Tensor [1] [5])
   \<and> snd (act (stub_provider (Tensor [2, 1] [0, 0]) (Tensor [1] [5])) (const_noise 0) plain_model
            (Tensor [2, 4] [0, 0, 0, 0, 0, 0, 0, 0]) None False '''')
       = Inr (Tensor [2, 1] [0, 0],
              Tensor [2, 1] [- 2 - ln (sqrt (2 * pi)), - 2 - ln (sqrt (2 * pi))],
              Tensor [2, 1] [0, 0])
   \<and> clamp_log_std plain_model (Tensor [1] [5]) = Tensor [1] [2]
   \<and> get_log_std (fst (act (stub_provider (Tensor [2, 1] [0, 0]) (Tensor [1] [5])) (const_noise 0)
            plain_model (Tensor [2, 4] [0, 0, 0, 0, 0, 0, 0, 0]) None False ''''))
       = Inr (Tensor [2, 1] [2, 2])"
proof -
  let ?p = "stub_provider (Tensor [2, 1] [0, 0]) (Tensor [1] [5])"
  let ?s = "Tensor [2, 4] [0, 0, 0, 0, 0, 0, 0, 0]"
  have h1: "provide ?p ?s None '''' = Inr (Tensor [2, 1] [0, 0], Tensor [1] [5])"
    by (simp add: provide_def stub_provider_def)
  have h2: "shape (Tensor [2, 1] [0, 0]) = [2, 1]" by simp
  have h3: "shape (Tensor [1] [5]) = [1] \<or> shape (Tensor [1] [5]) = [1, 1]" by simp
  have h4: "wf_tensor (Tensor [1] [5])" by (simp add: wf_tensor_def numel_def)
  have h5: "snd (act ?p (const_noise 0) plain_model ?s None False '''')
       = Inr (Tensor [2, 1] [0, 0],
              Tensor [2, 1] [- 2 - ln (sqrt (2 * pi)), - 2 - ln (sqrt (2 * pi))],
              Tensor [2, 1] [0, 0])"
    by (simp add: eval_defs upt_rec numeral_2_eq_2)
  have c: "clamp_log_std plain_model (Tensor [1] [5]) = Tensor [1] [2]"
    by (simp add: clamp_log_std_def clamp_scalar_def plain_model_def)
  have g: "get_log_std (fst (act ?p (const_noise 0) plain_model ?s None False ''''))
       = Inr (Tensor [2, 1] [2, 2])"
    using log_std_repeated [OF h1 h2 h3 h4 h5] c
    by (simp add: get_log_std_def repeat_rows_def pad_def numeral_2_eq_2)
  show ?thesis using h1 h4 h5 c g by simp
qed

theorem log_std_rows_counterexample:
  "provide (stub_provider (Tensor [2, 1] [0, 0]) (Tensor [2, 1] [0, 1]))
       (Tensor [2, 4] [0, 0, 0, 0, 0, 0, 0, 0]) None ''''
     = Inr (Tensor [2, 1] [0, 0], Tensor [2, 1] [0, 1])
   \<and> (\<exists>lp. snd (act (stub_provider (Tensor [2, 1] [0, 0]) (Tensor [2, 1] [0, 1])) (const_noise 0)
              plain_model (Tensor [2, 4] [0, 0, 0, 0, 0, 0, 0, 0]) None False '''')
         = Inr (Tensor [2, 1] [0, 0], lp, Tensor [2, 1] [0, 0]))
   \<and> get_log_std (fst (act (stub_provider (Tensor [2, 1] [0, 0]) (Tensor [2, 1] [0, 1]))
            (const_noise 0) plain_model (Tensor [2, 4] [0, 0, 0, 0, 0, 0, 0, 0]) None False ''''))
       = Inr (Tensor [4, 1] [0, 1, 0, 1])"
  by (simp add: eval_defs get_log_std_def repeat_rows_def upt_rec numeral_2_eq_2)

text \<open>
  C7. On a model that the constructor has just returned, before any call of
  \<^verbatim>\<open>act\<close>, \<^verbatim>\<open>get_log_std\<close> returns no value: it fails, with the
  \<^verbatim>\<open>AttributeError\<close> of calling \<^verbatim>\<open>repeat\<close> on \<^verbatim>\<open>None\<close>.
\<close>

theorem get_log_std_before_act:
  assumes "init space torch_version clip_requested clip_std min_log_std max_log_std reduction
             = Inr m"
  shows "get_log_std m = Inl AttributeError"
  using assms
  by (auto simp: init_def get_log_std_def Let_def split: if_splits sum.splits prod.splits)

theorem get_log_std_before_act_witness:
  "init (Size 1) (1, 10) False True (- 20) 2 ''sum'' = Inr plain_model
   \<and> get_log_std plain_model = Inl AttributeError"
  using init_plain get_log_std_before_act [OF init_plain] by simp

text \<open>
  C8. On a model that the constructor has just returned, \<^verbatim>\<open>get_entropy\<close> returns
  the scalar 0. After a call of \<^verbatim>\<open>act\<close> on a batch of \<open>n\<close> states with action
  dimension \<open>k\<close> (mean of shape \<open>[n, k]\<close>; log standard deviation, taken actions and
  bounds fitting into it), whatever the state of the model was before, it returns
  the entropy of the distribution that this call built: a tensor of shape \<open>[n, k]\<close>
  with \<open>n * k\<close> elements, each \<open>1/2 + 1/2 ln (2 pi)\<close> plus the clamped log standard
  deviation of its place.
\<close>

theorem entropy_accessor:
  "(init space torch_version clip_requested clip_std min_log_std max_log_std reduction = Inr m0
      \<longrightarrow> get_entropy m0 = Tensor [] [0])
   \<and> (provide p states taken_actions role = Inr (mean, log_std)
        \<and> shape mean = [n, k] \<and> wf_tensor mean \<and> fits_into log_std [n, k]
        \<and> bounds_fit m [n, k]
        \<and> (case taken_actions of None \<Rightarrow> True | Some t \<Rightarrow> fits_into t [n, k])
      \<longrightarrow> (\<exists>a lp mu. snd (act p noise m states taken_actions inference role) = Inr (a, lp, mu))
          \<and> (\<exists>d. distribution (fst (act p noise m states taken_actions inference role)) = Some d
                \<and> Normal mean (torch_exp (clamp_log_std m log_std)) = Inr d
                \<and> get_entropy (fst (act p noise m states taken_actions inference role))
                    = entropy d)
          \<and> shape (get_entropy (fst (act p noise m states taken_actions inference role)))
              = [n, k]
          \<and> data (get_entropy (fst (act p noise m states taken_actions inference role)))
              = map (\<lambda>x. 1 / 2 + 1 / 2 * ln (2 * pi) + x)
                  (data (expand [n, k] (clamp_log_std m log_std)))
          \<and> length (data (get_entropy (fst (act p noise m states taken_actions inference role))))
              = n * k)"
proof (intro conjI impI)
  assume "init space torch_version clip_requested clip_std min_log_std max_log_std reduction
            = Inr m0"
  from init_fields(9) [OF this] show "get_entropy m0 = Tensor [] [0]"
    by (simp add: get_entropy_def)
next
  let ?m' = "fst (act p noise m states taken_actions inference role)"
  let ?e = "expand [n, k] (clamp_log_std m log_std)"
  assume h: "provide p states taken_actions role = Inr (mean, log_std)
        \<and> shape mean = [n, k] \<and> wf_tensor mean \<and> fits_into log_std [n, k]
        \<and> bounds_fit m [n, k]
        \<and> (case taken_actions of None \<Rightarrow> True | Some t \<Rightarrow> fits_into t [n, k])"
  then have f: "fits_into (clamp_log_std m log_std) [n, k]"
    by (simp add: fits_into_def wf_tensor_def clamp_log_std_shape)
  from h obtain a lp d where
    r: "act p noise m states taken_actions inference role
         = (m\<lparr>priv_log_std := Some (clamp_log_std m log_std), priv_num_samples := Some n,
               priv_distribution := Some d\<rparr>, Inr (a, lp, mean))" and
    nd: "Normal mean (torch_exp (clamp_log_std m log_std)) = Inr d" and
    sc: "scale d = torch_exp ?e"
    using act_well_shaped [of p states taken_actions role mean log_std n k m noise inference]
    by metis
  from r have d: "priv_distribution ?m' = Some d" by simp
  from d have ge: "get_entropy ?m' = entropy d" by (simp add: get_entropy_def)
  have en: "entropy d = Tensor [n, k] (map (\<lambda>x. 1 / 2 + 1 / 2 * ln (2 * pi) + x) (data ?e))"
    using entropy_of_exp [OF sc] by (simp add: shape_expand)
  from wf_expand [OF f] have len: "length (data ?e) = n * k"
    by (simp add: wf_tensor_def shape_expand numel_def)
  from r show "\<exists>a lp mu. snd (act p noise m states taken_actions inference role) = Inr (a, lp, mu)"
    by simp
  from d nd ge show "\<exists>d. distribution ?m' = Some d
      \<and> Normal mean (torch_exp (clamp_log_std m log_std)) = Inr d \<and> get_entropy ?m' = entropy d"
    by (simp add: distribution_def)
  from ge en show "shape (get_entropy ?m') = [n, k]" by simp
  from ge en show "data (get_entropy ?m') = map (\<lambda>x. 1 / 2 + 1 / 2 * ln (2 * pi) + x) (data ?e)"
    by simp
  from ge en len show "length (data (get_entropy ?m')) = n * k" by simp
qed

theorem entropy_accessor_witness:
  "init (Size 1) (1, 10) False True (- 20) 2 ''sum'' = Inr plain_model
   \<and> get_entropy plain_model = Tensor [] [0]
   \<and> provide (stub_provider (Tensor [2, 2] [0, 0, 0, 0]) (Tensor [2] [0, 1])) example_states None ''''
       = Inr (Tensor [2, 2] [0, 0, 0, 0], Tensor [2] [0, 1])
   \<and> wf_tensor (Tensor [2, 2] [0, 0, 0, 0]) \<and> fits_into (Tensor [2] [0, 1]) [2, 2]
   \<and> bounds_fit plain_model [2, 2]
   \<and> get_entropy (fst (act (stub_provider (Tensor [2, 2] [0, 0, 0, 0]) (Tensor [2] [0, 1]))
        (const_noise 1) plain_model example_states None False ''''))
      = Tensor [2, 2] [1 / 2 + 1 / 2 * ln (2 * pi), 1 / 2 + 1 / 2 * ln (2 * pi) + 1,
                       1 / 2 + 1 / 2 * ln (2 * pi), 1 / 2 + 1 / 2 * ln (2 * pi) + 1]"
proof -
  let ?p = "stub_provider (Tensor [2, 2] [0, 0, 0, 0]) (Tensor [2] [0, 1])"
  let ?m' = "fst (act ?p (const_noise 1) plain_model example_states None False '''')"
  have h1: "provide ?p example_states None ''''
              = Inr (Tensor [2, 2] [0, 0, 0, 0], Tensor [2] [0, 1])"
    by (simp add: provide_def stub_provider_def)
  have h3: "wf_tensor (Tensor [2, 2] [0, 0, 0, 0])" by (simp add: wf_tensor_def numel_def)
  have h4: "fits_into (Tensor [2] [0, 1]) [2, 2]"
    by (simp add: fits_into_def wf_tensor_def numel_def broadcast_shapes_def pad_def)
  have h5: "bounds_fit plain_model [2, 2]"
    by (simp add: bounds_fit_def plain_model_def)
  have e: "data (expand [2, 2] (clamp_log_std plain_model (Tensor [2] [0, 1]))) = [0, 1, 0, 1]"
    by (simp add: expand_def pad_def clamp_log_std_def clamp_scalar_def plain_model_def
        chunks_def numel_def upt_rec numeral_2_eq_2)
  have "shape (get_entropy ?m') = [2, 2]
      \<and> data (get_entropy ?m') = [1 / 2 + 1 / 2 * ln (2 * pi), 1 / 2 + 1 / 2 * ln (2 * pi) + 1,
                       1 / 2 + 1 / 2 * ln (2 * pi), 1 / 2 + 1 / 2 * ln (2 * pi) + 1]"
    using h1 h3 h4 h5 e
      entropy_accessor [of "Size 1" "(1, 10)" False True "- 20" 2 "''sum''" plain_model
        ?p example_states None "''''" "Tensor [2, 2] [0, 0, 0, 0]" "Tensor [2] [0, 1]" 2 2
        plain_model "const_noise 1" False]
    by simp
  then have "get_entropy ?m' = Tensor [2, 2] [1 / 2 + 1 / 2 * ln (2 * pi),
      1 / 2 + 1 / 2 * ln (2 * pi) + 1, 1 / 2 + 1 / 2 * ln (2 * pi), 1 / 2 + 1 / 2 * ln (2 * pi) + 1]"
    by (cases "get_entropy ?m'") simp
  moreover have "get_entropy plain_model = Tensor [] [0]"
    using init_plain
      entropy_accessor [of "Size 1" "(1, 10)" False True "- 20" 2 "''sum''" plain_model]
    by simp
  ultimately show ?thesis using init_plain h1 h3 h4 h5 by simp
qed

text \<open>
  C9, as the code has it. The constructor looks up the bounds of the actions
  before it checks \<open>reduction\<close>. When that lookup does not raise (clipping is not
  requested on a gym space without bounds): a \<open>reduction\<close> outside
  \<^verbatim>\<open>mean\<close>, \<^verbatim>\<open>sum\<close>, \<^verbatim>\<open>prod\<close>, \<^verbatim>\<open>none\<close> makes the constructor raise the
  \<^verbatim>\<open>ValueError\<close> whose message names each of the four accepted values; each
  of the four accepted values makes it return a model, and no \<^verbatim>\<open>ValueError\<close>.
\<close>

theorem reduction_validated:
  "(clip_requested \<and> is_gym_space space \<longrightarrow> has_bounds space) \<longrightarrow>
     (reduction \<notin> set accepted \<longrightarrow>
        init space torch_version clip_requested clip_std min_log_std max_log_std reduction
          = Inl (ValueError reduction_message)
        \<and> (\<forall>r\<in>set accepted. sublist (quoted r) reduction_message))
     \<and> (reduction \<in> set accepted \<longrightarrow>
          (\<exists>m. init space torch_version clip_requested clip_std min_log_std max_log_std reduction
                 = Inr m
               \<and> priv_reduction m = select_reduction reduction
               \<and> (\<forall>msg. init space torch_version clip_requested clip_std min_log_std
                            max_log_std reduction \<noteq> Inl (ValueError msg))))"
proof (intro impI conjI)
  assume b: "clip_requested \<and> is_gym_space space \<longrightarrow> has_bounds space"
  from bounds_step [OF b, of torch_version] obtain cmin cmax old where
    s: "(if clip_requested \<and> is_gym_space space then
          (case space of
             Box lo hi \<Rightarrow> Inr (Some lo, Some hi,
                Some (fst torch_version < 1 \<or> (fst torch_version = 1 \<and> snd torch_version < 9)))
           | _ \<Rightarrow> Inl AttributeError)
        else Inr (None, None, None)) = Inr (cmin, cmax, old)"
    by blast
  {
    assume "reduction \<notin> set accepted"
    with s show "init space torch_version clip_requested clip_std min_log_std max_log_std reduction
          = Inl (ValueError reduction_message)"
      by (simp add: init_def accepted_def Let_def)
    show "\<forall>r\<in>set accepted. sublist (quoted r) reduction_message"
      by (rule message_lists_accepted)
  }
  {
    assume "reduction \<in> set accepted"
    with s show "\<exists>m. init space torch_version clip_requested clip_std min_log_std max_log_std reduction
                 = Inr m
               \<and> priv_reduction m = select_reduction reduction
               \<and> (\<forall>msg. init space torch_version clip_requested clip_std min_log_std
                            max_log_std reduction \<noteq> Inl (ValueError msg))"
      by (simp add: init_def accepted_def Let_def)
  }
qed

theorem reduction_validated_witness:
  "init (Size 1) (1, 10) False True (- 20) 2 ''invalid'' = Inl (ValueError reduction_message)
   \<and> sublist (quoted ''mean'') reduction_message \<and> sublist (quoted ''sum'') reduction_message
   \<and> sublist (quoted ''prod'') reduction_message \<and> sublist (quoted ''none'') reduction_message
   \<and> (\<exists>m. init (Size 1) (1, 10) False True (- 20) 2 ''none'' = Inr m \<and> priv_reduction m = None)"
  using reduction_validated [of False "Size 1" "''invalid''" "(1, 10)" True "- 20" 2]
    reduction_validated [of False "Size 1" "''none''" "(1, 10)" True "- 20" 2]
  by (simp add: accepted_def select_reduction_def) blast

theorem reduction_check_counterexample:
  "''invalid'' \<notin> set accepted
   \<and> init (Discrete 3) (1, 10) True True (- 20) 2 ''invalid'' = Inl AttributeError
   \<and> ''mean'' \<in> set accepted
   \<and> init (Discrete 3) (1, 10) True True (- 20) 2 ''mean'' = Inl AttributeError"
  by (simp add: accepted_def init_def)

text \<open>
  C10. The third component that \<^verbatim>\<open>act\<close> returns is the mean that the provider
  computed, element for element, whatever the configuration: neither the clamp of
  the log standard deviation nor the clipping of the sampled action touches it.
\<close>

theorem mean_action_unchanged:
  assumes "provide p states taken_actions role = Inr (mean, log_std)"
    and "snd (act p noise m states taken_actions inference role) = Inr (a, lp, mu)"
  shows "mu = mean"
proof -
  from snd_act_Inr [OF assms(2)] obtain ls0 where
    "provide p states taken_actions role = Inr (mu, ls0)"
    by (auto simp: act_Inr)
  with assms(1) show ?thesis by simp
qed

theorem mean_action_unchanged_witness:
  "provide (stub_provider (Tensor [1, 1] [5]) (Tensor [1] [0])) example_states None ''''
     = Inr (Tensor [1, 1] [5], Tensor [1] [0])
   \<and> snd (act (stub_provider (Tensor [1, 1] [5]) (Tensor [1] [0])) (const_noise 0) box_model
          example_states None True '''')
     = Inr (Tensor [1, 1] [1], Tensor [1, 1] [- 8 - ln (sqrt (2 * pi))], Tensor [1, 1] [5])
   \<and> Tensor [1, 1] [5] \<noteq> Tensor [1, 1] [1]"
proof -
  let ?p = "stub_provider (Tensor [1, 1] [5]) (Tensor [1] [0])"
  have h1: "provide ?p example_states None '''' = Inr (Tensor [1, 1] [5], Tensor [1] [0])"
    by (simp add: provide_def stub_provider_def)
  have h2: "snd (act ?p (const_noise 0) box_model example_states None True '''')
     = Inr (Tensor [1, 1] [1], Tensor [1, 1] [- 8 - ln (sqrt (2 * pi))], Tensor [1, 1] [5])"
    by (simp add: eval_defs)
  show ?thesis
    using h1 h2 mean_action_unchanged [OF h1 h2] by simp
qed

end
